theory Spec2Isabelle
  imports Complex_Main
begin

section \<open>Python values\<close>

text \<open>
  The hook \<^verbatim>\<open>scripts/extra/green_ammonia.py\<close> reads a configuration of type
  \<^verbatim>\<open>Dict[str, Any]\<close> (parsed YAML) and mutates a PyPSA network. Configuration values
  are modelled as a datatype of dynamically typed values: \<^verbatim>\<open>None\<close>, booleans, integers,
  floats, strings and mappings with string keys (an association list read with
  \<open>map_of\<close>). Sequences are not part of the model. A float is a real number or one of
  the three IEEE special values. \<open>Fin r\<close> carries the number as it is written;
  where the source computes with it, it is rounded to binary64 first.
\<close>

datatype pyfloat = Fin real | PosInf | NegInf | NaN

datatype pyval =
    PNone
  | PBool bool
  | PInt int
  | PFloat pyfloat
  | PStr string
  | PDict "(string \<times> pyval) list"

text \<open>The exceptions that the source, or the library calls it makes, can raise.\<close>

datatype py_error =
    ValueError
  | AttributeError
  | TypeError
  | KeyError
  | IndexError
  | ReError
  | OverflowError

text \<open>
  Python's exception hierarchy: \<^verbatim>\<open>LookupError\<close> is the base class of
  \<^verbatim>\<open>KeyError\<close> and \<^verbatim>\<open>IndexError\<close> only.
\<close>

fun is_LookupError :: "py_error \<Rightarrow> bool" where
  "is_LookupError KeyError = True"
| "is_LookupError IndexError = True"
| "is_LookupError ValueError = False"
| "is_LookupError AttributeError = False"
| "is_LookupError TypeError = False"
| "is_LookupError ReError = False"
| "is_LookupError OverflowError = False"

text \<open>Truth value testing, as \<^verbatim>\<open>if v:\<close> and \<^verbatim>\<open>not v\<close> do it.\<close>

fun truthy :: "pyval \<Rightarrow> bool" where
  "truthy PNone = False"
| "truthy (PBool b) = b"
| "truthy (PInt i) = (i \<noteq> 0)"
| "truthy (PFloat f) = (f \<noteq> Fin 0)"
| "truthy (PStr s) = (s \<noteq> [])"
| "truthy (PDict d) = (d \<noteq> [])"

text \<open>
  \<^verbatim>\<open>d.get(key, default)\<close> on a mapping, and on any value: only a mapping has the
  method, on any other value the attribute lookup raises \<^verbatim>\<open>AttributeError\<close>.
\<close>

definition cfg_get :: "(string \<times> pyval) list \<Rightarrow> string \<Rightarrow> pyval \<Rightarrow> pyval" where
  "cfg_get d key dflt = (case map_of d key of None \<Rightarrow> dflt | Some v \<Rightarrow> v)"

fun py_get :: "pyval \<Rightarrow> string \<Rightarrow> pyval \<Rightarrow> py_error + pyval" where
  "py_get (PDict d) key dflt = Inr (cfg_get d key dflt)"
| "py_get PNone key dflt = Inl AttributeError"
| "py_get (PBool b) key dflt = Inl AttributeError"
| "py_get (PInt i) key dflt = Inl AttributeError"
| "py_get (PFloat f) key dflt = Inl AttributeError"
| "py_get (PStr s) key dflt = Inl AttributeError"

section \<open>The network\<close>

text \<open>
  A PyPSA network holds one table per component class, indexed by label, in insertion
  order. A table is a list of labelled rows; a row carries the attributes that the hook
  reads or writes. \<^verbatim>\<open>network.add(cls, name, **attrs)\<close> is modelled as appending the row
  \<open>(name, attrs)\<close> to the table of the class, holding the keyword arguments as they
  were passed; the library's casts and its other columns are outside the source.
  Bus positions are finite.
\<close>

record bus =
  bus_x :: real
  bus_y :: real
  bus_country :: string
  bus_carrier :: pyval
  bus_sub_network :: string

record link =
  link_bus0 :: string
  link_bus1 :: string
  link_carrier :: pyval
  link_efficiency :: pyval
  link_capital_cost :: pyval
  link_marginal_cost :: pyval
  link_lifetime :: pyval
  link_p_nom_extendable :: bool
  link_p_nom_max :: pyval

record store =
  store_bus :: string
  store_carrier :: pyval
  store_e_cyclic :: pyval
  store_standing_loss :: pyval
  store_capital_cost :: pyval
  store_e_nom_extendable :: bool
  store_e_nom_max :: pyval

record network =
  buses :: "(string \<times> bus) list"
  links :: "(string \<times> link) list"
  stores :: "(string \<times> store) list"
  carriers :: "pyval list"

text \<open>
  A link is an edge between two buses and a store is attached to one bus: in a
  well-formed network the buses named by \<^verbatim>\<open>bus0\<close>, \<^verbatim>\<open>bus1\<close> and \<^verbatim>\<open>bus\<close> are rows
  of the bus table. The hook does not check this; it is a property of the networks it is
  given.
\<close>

definition endpoints_exist :: "network \<Rightarrow> bool" where
  "endpoints_exist network =
     (list_all (\<lambda>row. link_bus0 (snd row) \<in> set (map fst (buses network))
                   \<and> link_bus1 (snd row) \<in> set (map fst (buses network))) (links network)
      \<and> list_all (\<lambda>row. store_bus (snd row) \<in> set (map fst (buses network))) (stores network))"

text \<open>
  Two calls leave the source for pandas and numpy with a string argument taken from the
  configuration. Both are parameters of the model:
  \<^item> \<open>str_contains pat\<close> is \<^verbatim>\<open>index.str.contains(pat)\<close>: \<open>None\<close> when the pattern is
    rejected (pandas reads it as a regular expression), otherwise the test applied to
    each label;
  \<^item> \<open>float_of_str s\<close> is the conversion of a string by
    \<^verbatim>\<open>np.array(..., dtype=float)\<close>: \<open>None\<close> when the string is not a number.
\<close>

record library =
  str_contains :: "string \<Rightarrow> (string \<Rightarrow> bool) option"
  float_of_str :: "string \<Rightarrow> pyfloat option"

section \<open>Sequencing of calls that may raise\<close>

text \<open>
  A call that mutates the network returns its result, or the exception it raised,
  together with the network as the call left it. \<open>try_pure\<close> sequences a call that
  only reads; \<open>try_st\<close> sequences one that may have mutated the network before raising.
\<close>

definition try_pure ::
  "py_error + 'a \<Rightarrow> network \<Rightarrow> ('a \<Rightarrow> (py_error + 'b) \<times> network) \<Rightarrow>
   (py_error + 'b) \<times> network" where
  "try_pure m network k = (case m of Inl e \<Rightarrow> (Inl e, network) | Inr v \<Rightarrow> k v)"

definition try_st ::
  "(py_error + 'a) \<times> network \<Rightarrow> ('a \<Rightarrow> network \<Rightarrow> (py_error + 'b) \<times> network) \<Rightarrow>
   (py_error + 'b) \<times> network" where
  "try_st m k = (case fst m of Inl e \<Rightarrow> (Inl e, snd m) | Inr v \<Rightarrow> k v (snd m))"

section \<open>The source functions\<close>

subsection \<open>\<^verbatim>\<open>_get_cfg\<close>\<close>

definition get_cfg :: "pyval \<Rightarrow> py_error + pyval" where
  "get_cfg config =
     (case py_get config ''custom'' (PDict []) of
        Inl e \<Rightarrow> Inl e
      | Inr custom \<Rightarrow> py_get custom ''green_ammonia'' (PDict []))"

subsection \<open>\<^verbatim>\<open>_ensure_carrier\<close>\<close>

text \<open>
  \<^verbatim>\<open>name in network.carriers.index\<close> hashes \<^verbatim>\<open>name\<close> first, which raises
  \<^verbatim>\<open>TypeError\<close> for a mapping. \<^verbatim>\<open>None\<close> is in no index, and
  \<^verbatim>\<open>network.add("Carrier", None)\<close> raises \<^verbatim>\<open>TypeError\<close>. Carrier names are strings
  in every configuration the hook is written for; for another value that can be hashed
  the model keeps the name as it is passed, where PyPSA files it under a label of its
  own making.
\<close>

definition ensure_carrier :: "network \<Rightarrow> pyval \<Rightarrow> (py_error + unit) \<times> network" where
  "ensure_carrier network name =
     (case name of
        PDict d \<Rightarrow> (Inl TypeError, network)
      | PNone \<Rightarrow> (Inl TypeError, network)
      | _ \<Rightarrow>
          if name \<in> set (carriers network) then (Inr (), network)
          else (Inr (), network\<lparr>carriers := carriers network @ [name]\<rparr>))"

text \<open>The loop of \<^verbatim>\<open>add_green_ammonia\<close> over the three carrier names.\<close>

fun ensure_carriers :: "network \<Rightarrow> pyval list \<Rightarrow> (py_error + unit) \<times> network" where
  "ensure_carriers network [] = (Inr (), network)"
| "ensure_carriers network (name # names) =
     try_st (ensure_carrier network name) (\<lambda>_ network'. ensure_carriers network' names)"

subsection \<open>\<^verbatim>\<open>_closest_bus\<close>\<close>

text \<open>Line 52: the rows of the bus table whose country equals the requested code.\<close>

definition country_candidates :: "network \<Rightarrow> pyval \<Rightarrow> (string \<times> bus) list" where
  "country_candidates network country_code =
     filter (\<lambda>row. PStr (bus_country (snd row)) = country_code) (buses network)"

text \<open>
  Lines 58 to 61: the substring filter. A truthy value that is not a string is rejected
  by pandas with \<^verbatim>\<open>TypeError\<close>.
\<close>

definition narrow ::
  "library \<Rightarrow> (string \<times> bus) list \<Rightarrow> pyval \<Rightarrow> py_error + (string \<times> bus) list" where
  "narrow lib candidates bus_substring =
     (if truthy bus_substring then
        (case bus_substring of
           PStr pat \<Rightarrow>
             (case str_contains lib pat of
                None \<Rightarrow> Inl ReError
              | Some matches \<Rightarrow>
                  (let narrowed = filter (\<lambda>row. matches (fst row)) candidates
                   in if narrowed \<noteq> [] then Inr narrowed else Inr candidates))
         | _ \<Rightarrow> Inl TypeError)
      else Inr candidates)"

text \<open>
  Arithmetic in binary64 (IEEE 754 double precision, round to nearest, ties to even).
  \<open>round_even\<close> rounds a real to the nearest integer, a tie to the even one.
  \<open>quantum x\<close> is the spacing of the binary64 values around \<open>x\<close>: 53 significant
  bits below the leading one, and never finer than \<open>2 powr - 1074\<close>, the spacing of
  the subnormal numbers. \<open>binary64 x\<close> is the value a correctly rounded operation
  returns when its exact result is \<open>x\<close>; a result that rounds to \<open>2 ^ 1024\<close> or
  beyond overflows to an infinity.
\<close>

definition round_even :: "real \<Rightarrow> int" where
  "round_even x =
     (let f = \<lfloor>x\<rfloor> in
      if x - of_int f < 1 / 2 then f
      else if 1 / 2 < x - of_int f then f + 1
      else if even f then f else f + 1)"

definition quantum :: "real \<Rightarrow> real" where
  "quantum x = 2 powr of_int (max (\<lfloor>log 2 \<bar>x\<bar>\<rfloor> - 52) (- 1074))"

definition binary64 :: "real \<Rightarrow> pyfloat" where
  "binary64 x =
     (if x = 0 then Fin 0
      else
        (let r = of_int (round_even (x / quantum x)) * quantum x in
         if 2 ^ 1024 \<le> r then PosInf
         else if r \<le> - (2 ^ 1024) then NegInf
         else Fin r))"

text \<open>
  The operations of \<^verbatim>\<open>np.linalg.norm(coords - target, axis=1)\<close> on one row: the
  difference, the product of a number with itself, the sum and the square root, each
  rounded, with the IEEE rules for infinities and \<^verbatim>\<open>nan\<close>. \<open>f_ge\<close> is the comparison
  \<^verbatim>\<open>>=\<close>, which is false as soon as one side is \<^verbatim>\<open>nan\<close>.
\<close>

fun f_sub :: "pyfloat \<Rightarrow> pyfloat \<Rightarrow> pyfloat" where
  "f_sub (Fin a) (Fin b) = binary64 (a - b)"
| "f_sub NaN v = NaN"
| "f_sub u NaN = NaN"
| "f_sub PosInf PosInf = NaN"
| "f_sub NegInf NegInf = NaN"
| "f_sub PosInf v = PosInf"
| "f_sub NegInf v = NegInf"
| "f_sub (Fin a) PosInf = NegInf"
| "f_sub (Fin a) NegInf = PosInf"

fun f_sq :: "pyfloat \<Rightarrow> pyfloat" where
  "f_sq (Fin a) = binary64 (a * a)"
| "f_sq PosInf = PosInf"
| "f_sq NegInf = PosInf"
| "f_sq NaN = NaN"

fun f_add :: "pyfloat \<Rightarrow> pyfloat \<Rightarrow> pyfloat" where
  "f_add (Fin a) (Fin b) = binary64 (a + b)"
| "f_add NaN v = NaN"
| "f_add u NaN = NaN"
| "f_add PosInf NegInf = NaN"
| "f_add NegInf PosInf = NaN"
| "f_add PosInf v = PosInf"
| "f_add u PosInf = PosInf"
| "f_add NegInf v = NegInf"
| "f_add u NegInf = NegInf"

fun f_sqrt :: "pyfloat \<Rightarrow> pyfloat" where
  "f_sqrt (Fin a) = (if a < 0 then NaN else binary64 (sqrt a))"
| "f_sqrt PosInf = PosInf"
| "f_sqrt NegInf = NaN"
| "f_sqrt NaN = NaN"

fun f_ge :: "pyfloat \<Rightarrow> pyfloat \<Rightarrow> bool" where
  "f_ge (Fin a) (Fin b) = (b \<le> a)"
| "f_ge NaN v = False"
| "f_ge u NaN = False"
| "f_ge PosInf v = True"
| "f_ge u NegInf = True"
| "f_ge (Fin a) PosInf = False"
| "f_ge NegInf v = False"

text \<open>
  The conversion of one element of \<^verbatim>\<open>np.array([latitude, longitude], dtype=float)\<close>.
  An integer too large for a float raises \<^verbatim>\<open>OverflowError\<close>.
\<close>

fun np_float :: "library \<Rightarrow> pyval \<Rightarrow> py_error + pyfloat" where
  "np_float lib PNone = Inr NaN"
| "np_float lib (PBool b) = Inr (Fin (if b then 1 else 0))"
| "np_float lib (PInt i) =
     (case binary64 (of_int i) of Fin r \<Rightarrow> Inr (Fin r) | _ \<Rightarrow> Inl OverflowError)"
| "np_float lib (PFloat (Fin r)) = Inr (binary64 r)"
| "np_float lib (PFloat PosInf) = Inr PosInf"
| "np_float lib (PFloat NegInf) = Inr NegInf"
| "np_float lib (PFloat NaN) = Inr NaN"
| "np_float lib (PStr s) = (case float_of_str lib s of None \<Rightarrow> Inl ValueError | Some f \<Rightarrow> Inr f)"
| "np_float lib (PDict d) = Inl TypeError"

text \<open>
  \<^verbatim>\<open>np.linalg.norm(coords - target, axis=1)\<close> on the row of one bus: the columns of
  \<^verbatim>\<open>coords\<close> are \<^verbatim>\<open>["y", "x"]\<close>, read as binary64, and the target is
  \<^verbatim>\<open>[latitude, longitude]\<close>.
\<close>

definition distance :: "pyfloat \<Rightarrow> pyfloat \<Rightarrow> bus \<Rightarrow> pyfloat" where
  "distance latitude longitude b =
     f_sqrt (f_add (f_sq (f_sub (binary64 (bus_y b)) latitude))
                   (f_sq (f_sub (binary64 (bus_x b)) longitude)))"

text \<open>
  The distance that the specification speaks of: the Euclidean distance of a bus to the
  target over the real numbers, latitude against \<^verbatim>\<open>y\<close> and longitude against
  \<^verbatim>\<open>x\<close>. It is not part of the source; the computed distance is compared with it.
\<close>

definition euclidean :: "real \<Rightarrow> real \<Rightarrow> bus \<Rightarrow> real" where
  "euclidean latitude longitude b =
     sqrt ((bus_y b - latitude)\<^sup>2 + (bus_x b - longitude)\<^sup>2)"

definition distances :: "(string \<times> bus) list \<Rightarrow> pyfloat \<Rightarrow> pyfloat \<Rightarrow> pyfloat list" where
  "distances candidates latitude longitude =
     map (\<lambda>row. distance latitude longitude (snd row)) candidates"

text \<open>
  \<^verbatim>\<open>ndarray.argmin()\<close> on floats: a scan that keeps the index of the smallest value
  seen, replaces it when the next value is not \<^verbatim>\<open>>=\<close> it, and stops at the first
  \<^verbatim>\<open>nan\<close>; it raises \<^verbatim>\<open>ValueError\<close> on an empty array.
\<close>

fun argmin_scan :: "pyfloat list \<Rightarrow> nat \<Rightarrow> nat \<Rightarrow> pyfloat \<Rightarrow> nat" where
  "argmin_scan [] i min_ind mp = min_ind"
| "argmin_scan (d # ds) i min_ind mp =
     (if \<not> f_ge d mp then (if d = NaN then i else argmin_scan ds (Suc i) i d)
      else argmin_scan ds (Suc i) min_ind mp)"

definition argmin :: "pyfloat list \<Rightarrow> py_error + nat" where
  "argmin ds =
     (case ds of
        [] \<Rightarrow> Inl ValueError
      | d # rest \<Rightarrow> Inr (if d = NaN then 0 else argmin_scan rest 1 0 d))"

text \<open>\<^verbatim>\<open>candidates.index[0]\<close>.\<close>

definition first_label :: "(string \<times> bus) list \<Rightarrow> py_error + string" where
  "first_label candidates =
     (case candidates of [] \<Rightarrow> Inl IndexError | row # _ \<Rightarrow> Inr (fst row))"

text \<open>Lines 63 to 70.\<close>

definition nearest ::
  "library \<Rightarrow> (string \<times> bus) list \<Rightarrow> pyval \<Rightarrow> pyval \<Rightarrow> py_error + string" where
  "nearest lib candidates latitude longitude =
     (if latitude = PNone \<or> longitude = PNone then first_label candidates
      else
        (case np_float lib latitude of
           Inl e \<Rightarrow> Inl e
         | Inr lat \<Rightarrow>
             (case np_float lib longitude of
                Inl e \<Rightarrow> Inl e
              | Inr lon \<Rightarrow>
                  (case argmin (distances candidates lat lon) of
                     Inl e \<Rightarrow> Inl e
                   | Inr idx \<Rightarrow> Inr (fst (candidates ! idx))))))"

definition closest_bus ::
  "library \<Rightarrow> network \<Rightarrow> pyval \<Rightarrow> pyval \<Rightarrow> pyval \<Rightarrow> pyval \<Rightarrow> py_error + string" where
  "closest_bus lib network country_code latitude longitude bus_substring =
     (let candidates = country_candidates network country_code in
      if candidates = [] then Inl ValueError
      else
        (case narrow lib candidates bus_substring of
           Inl e \<Rightarrow> Inl e
         | Inr candidates' \<Rightarrow> nearest lib candidates' latitude longitude))"

subsection \<open>\<^verbatim>\<open>_add_bus\<close>\<close>

text \<open>
  \<^verbatim>\<open>network.buses.loc[base_bus]\<close> raises \<^verbatim>\<open>KeyError\<close> for an unknown label. Labels
  of a table are unique, so the row read is a \<^verbatim>\<open>pd.Series\<close> and the sub-network is
  copied from it.
\<close>

definition add_bus :: "network \<Rightarrow> string \<Rightarrow> pyval \<Rightarrow> (py_error + string) \<times> network" where
  "add_bus network base_bus carrier =
     (case map_of (buses network) base_bus of
        None \<Rightarrow> (Inl KeyError, network)
      | Some base \<Rightarrow>
          (let label = base_bus @ ''-NH3'' in
           if label \<in> set (map fst (buses network)) then (Inr label, network)
           else
             (Inr label,
              network\<lparr>buses := buses network @
                [(label,
                  \<lparr>bus_x = bus_x base, bus_y = bus_y base, bus_country = bus_country base,
                   bus_carrier = carrier, bus_sub_network = bus_sub_network base\<rparr>)]\<rparr>)))"

subsection \<open>\<^verbatim>\<open>_add_electrolyser\<close>, \<^verbatim>\<open>_add_storage\<close>, \<^verbatim>\<open>_add_ccgt\<close>\<close>

text \<open>
  The parameters are read with \<^verbatim>\<open>cfg.get(key, default)\<close> while the keyword arguments
  of \<^verbatim>\<open>network.add\<close> are built, after the label check. Every one of these reads
  raises \<^verbatim>\<open>AttributeError\<close> exactly when \<^verbatim>\<open>cfg\<close> is not a mapping.
\<close>

definition add_electrolyser ::
  "network \<Rightarrow> string \<Rightarrow> string \<Rightarrow> pyval \<Rightarrow> pyval \<Rightarrow> (py_error + unit) \<times> network" where
  "add_electrolyser network base_bus nh3_bus cfg carrier_name =
     (let label = base_bus @ ''-NH3-electrolyser'' in
      if label \<in> set (map fst (links network)) then (Inr (), network)
      else
        (case cfg of
           PDict d \<Rightarrow>
             (Inr (),
              network\<lparr>links := links network @
                [(label,
                  \<lparr>link_bus0 = base_bus, link_bus1 = nh3_bus, link_carrier = carrier_name,
                   link_efficiency = cfg_get d ''efficiency'' (PFloat (Fin (6 / 10))),
                   link_capital_cost = cfg_get d ''capital_cost'' (PFloat (Fin 750000)),
                   link_marginal_cost = cfg_get d ''marginal_cost'' (PFloat (Fin (5 / 10))),
                   link_lifetime = cfg_get d ''lifetime'' (PInt 20),
                   link_p_nom_extendable = True,
                   link_p_nom_max = cfg_get d ''p_nom_max'' (PFloat PosInf)\<rparr>)]\<rparr>)
         | _ \<Rightarrow> (Inl AttributeError, network)))"

definition add_storage ::
  "network \<Rightarrow> string \<Rightarrow> pyval \<Rightarrow> pyval \<Rightarrow> (py_error + unit) \<times> network" where
  "add_storage network nh3_bus cfg carrier_name =
     (let label = nh3_bus @ ''-store'' in
      if label \<in> set (map fst (stores network)) then (Inr (), network)
      else
        (case cfg of
           PDict d \<Rightarrow>
             (Inr (),
              network\<lparr>stores := stores network @
                [(label,
                  \<lparr>store_bus = nh3_bus, store_carrier = carrier_name,
                   store_e_cyclic = cfg_get d ''e_cyclic'' (PBool True),
                   store_standing_loss = cfg_get d ''standing_loss'' (PFloat (Fin 0)),
                   store_capital_cost = cfg_get d ''capital_cost'' (PFloat (Fin 150000)),
                   store_e_nom_extendable = True,
                   store_e_nom_max = cfg_get d ''e_nom_max'' (PFloat PosInf)\<rparr>)]\<rparr>)
         | _ \<Rightarrow> (Inl AttributeError, network)))"

definition add_ccgt ::
  "network \<Rightarrow> string \<Rightarrow> string \<Rightarrow> pyval \<Rightarrow> pyval \<Rightarrow> (py_error + unit) \<times> network" where
  "add_ccgt network base_bus nh3_bus cfg carrier_name =
     (let label = base_bus @ ''-NH3-CCGT'' in
      if label \<in> set (map fst (links network)) then (Inr (), network)
      else
        (case cfg of
           PDict d \<Rightarrow>
             (Inr (),
              network\<lparr>links := links network @
                [(label,
                  \<lparr>link_bus0 = nh3_bus, link_bus1 = base_bus, link_carrier = carrier_name,
                   link_efficiency = cfg_get d ''efficiency'' (PFloat (Fin (55 / 100))),
                   link_capital_cost = cfg_get d ''capital_cost'' (PFloat (Fin 900000)),
                   link_marginal_cost = cfg_get d ''marginal_cost'' (PFloat (Fin (25 / 10))),
                   link_lifetime = cfg_get d ''lifetime'' (PInt 25),
                   link_p_nom_extendable = True,
                   link_p_nom_max = cfg_get d ''p_nom_max'' (PFloat PosInf)\<rparr>)]\<rparr>)
         | _ \<Rightarrow> (Inl AttributeError, network)))"

subsection \<open>\<^verbatim>\<open>add_green_ammonia\<close>\<close>

text \<open>
  The entry point. The time index \<open>snapshots\<close> and the extra keyword arguments are
  parameters, as in the source. The informational \<^verbatim>\<open>print\<close> at the end does not
  touch the network and is left out.
\<close>

definition add_green_ammonia ::
  "library \<Rightarrow> network \<Rightarrow> 's \<Rightarrow> pyval \<Rightarrow> (string \<times> pyval) list \<Rightarrow>
   (py_error + unit) \<times> network" where
  "add_green_ammonia lib network snapshots config kwargs =
     try_pure (get_cfg config) network (\<lambda>ga_cfg.
     try_pure (py_get ga_cfg ''enable'' (PBool False)) network (\<lambda>enable.
     if \<not> truthy enable then (Inr (), network)
     else
     try_pure (py_get ga_cfg ''country_code'' (PStr ''ES'')) network (\<lambda>country.
     try_pure (py_get ga_cfg ''location'' (PDict [])) network (\<lambda>location.
     try_pure (py_get location ''latitude'' PNone) network (\<lambda>latitude.
     try_pure (py_get location ''longitude'' PNone) network (\<lambda>longitude.
     try_pure (py_get location ''bus_substring'' PNone) network (\<lambda>bus_substring.
     try_pure (closest_bus lib network country latitude longitude bus_substring) network
       (\<lambda>base_bus.
     try_pure (py_get ga_cfg ''carriers'' (PDict [])) network (\<lambda>carriers_cfg.
     try_pure (py_get carriers_cfg ''ammonia'' (PStr ''NH3'')) network (\<lambda>carrier_store.
     try_pure (py_get carriers_cfg ''to_store'' (PStr ''NH3-electrolyser'')) network
       (\<lambda>carrier_electrolyser.
     try_pure (py_get carriers_cfg ''to_power'' (PStr ''NH3-power'')) network (\<lambda>carrier_ccgt.
     try_st (ensure_carriers network [carrier_store, carrier_electrolyser, carrier_ccgt])
       (\<lambda>_ n1.
     try_st (add_bus n1 base_bus carrier_store) (\<lambda>nh3_bus n2.
     try_pure (py_get ga_cfg ''electrolyser'' (PDict [])) n2 (\<lambda>electrolyser_cfg.
     try_st (add_electrolyser n2 base_bus nh3_bus electrolyser_cfg carrier_electrolyser)
       (\<lambda>_ n3.
     try_pure (py_get ga_cfg ''storage'' (PDict [])) n3 (\<lambda>storage_cfg.
     try_st (add_storage n3 nh3_bus storage_cfg carrier_store) (\<lambda>_ n4.
     try_pure (py_get ga_cfg ''ccgt'' (PDict [])) n4 (\<lambda>ccgt_cfg.
     add_ccgt n4 base_bus nh3_bus ccgt_cfg carrier_ccgt)))))))))))))))))))"

text \<open>
  Lines 191 to 197 of \<^verbatim>\<open>add_green_ammonia\<close> on their own: the part of the entry point
  that mutates the network, as a function of the values resolved before it.
\<close>

definition inject_chain ::
  "network \<Rightarrow> pyval \<Rightarrow> string \<Rightarrow> pyval \<Rightarrow> pyval \<Rightarrow> pyval \<Rightarrow> (py_error + unit) \<times> network" where
  "inject_chain network ga_cfg base_bus carrier_store carrier_electrolyser carrier_ccgt =
     try_st (ensure_carriers network [carrier_store, carrier_electrolyser, carrier_ccgt])
       (\<lambda>_ n1.
     try_st (add_bus n1 base_bus carrier_store) (\<lambda>nh3_bus n2.
     try_pure (py_get ga_cfg ''electrolyser'' (PDict [])) n2 (\<lambda>electrolyser_cfg.
     try_st (add_electrolyser n2 base_bus nh3_bus electrolyser_cfg carrier_electrolyser)
       (\<lambda>_ n3.
     try_pure (py_get ga_cfg ''storage'' (PDict [])) n3 (\<lambda>storage_cfg.
     try_st (add_storage n3 nh3_bus storage_cfg carrier_store) (\<lambda>_ n4.
     try_pure (py_get ga_cfg ''ccgt'' (PDict [])) n4 (\<lambda>ccgt_cfg.
     add_ccgt n4 base_bus nh3_bus ccgt_cfg carrier_ccgt)))))))"

section \<open>Concrete inputs\<close>

text \<open>
  The library at patterns without regular-expression metacharacters: such a pattern
  matches a label exactly when it occurs in it. None of the inputs evaluated below holds
  a string where a coordinate is expected, so this instance converts no string.
\<close>

fun starts_with :: "string \<Rightarrow> string \<Rightarrow> bool" where
  "starts_with [] s = True"
| "starts_with (p # ps) [] = False"
| "starts_with (p # ps) (c # cs) = (p = c \<and> starts_with ps cs)"

fun literal_contains :: "string \<Rightarrow> string \<Rightarrow> bool" where
  "literal_contains pat [] = (pat = [])"
| "literal_contains pat (c # cs) = (starts_with pat (c # cs) \<or> literal_contains pat cs)"

definition literal_lib :: library where
  "literal_lib =
     \<lparr>str_contains = (\<lambda>pat. Some (literal_contains pat)), float_of_str = (\<lambda>s. None)\<rparr>"


definition country_bus :: "string \<Rightarrow> real \<Rightarrow> real \<Rightarrow> bus" where
  "country_bus c latitude longitude =
     \<lparr>bus_x = longitude, bus_y = latitude, bus_country = c, bus_carrier = PStr ''AC'',
      bus_sub_network = []\<rparr>"

definition single_bus_network :: network where
  "single_bus_network =
     \<lparr>buses = [(''ES0'', country_bus ''ES'' 0 0)], links = [], stores = [],
      carriers = [PStr ''AC'']\<rparr>"

definition three_bus_network :: network where
  "three_bus_network =
     \<lparr>buses = [(''ES0'', country_bus ''ES'' 0 0), (''ES1'', country_bus ''ES'' 1 1),
               (''ES5'', country_bus ''ES'' 5 5)],
      links = [], stores = [], carriers = [PStr ''AC'']\<rparr>"

text \<open>
  Two buses on the meridian 1: \<^verbatim>\<open>B\<close> a little north of the equator, listed first, and
  \<^verbatim>\<open>A\<close> on it.
\<close>

definition tie_network :: network where
  "tie_network =
     \<lparr>buses = [(''B'', country_bus ''ES'' (1 / 2 ^ 30) 1), (''A'', country_bus ''ES'' 0 1)],
      links = [], stores = [], carriers = [PStr ''AC'']\<rparr>"

text \<open>Two buses off the diagonal: latitude 1, longitude 6 and latitude 5, longitude 3.\<close>

definition offset_network :: network where
  "offset_network =
     \<lparr>buses = [(''east'', country_bus ''ES'' 1 6), (''north'', country_bus ''ES'' 5 3)],
      links = [], stores = [], carriers = [PStr ''AC'']\<rparr>"

definition foreign_network :: network where
  "foreign_network =
     \<lparr>buses = [(''FR0'', country_bus ''FR'' 0 0)], links = [], stores = [],
      carriers = [PStr ''AC'']\<rparr>"

definition linked_network :: network where
  "linked_network =
     \<lparr>buses = [(''ES0'', country_bus ''ES'' 0 0), (''ES1'', country_bus ''ES'' 1 1)],
      links = [(''L01'',
                \<lparr>link_bus0 = ''ES0'', link_bus1 = ''ES1'', link_carrier = PStr ''DC'',
                 link_efficiency = PFloat (Fin 1), link_capital_cost = PFloat (Fin 0),
                 link_marginal_cost = PFloat (Fin 0), link_lifetime = PInt 40,
                 link_p_nom_extendable = False, link_p_nom_max = PFloat PosInf\<rparr>)],
      stores = [(''S0'',
                 \<lparr>store_bus = ''ES0'', store_carrier = PStr ''battery'',
                  store_e_cyclic = PBool True, store_standing_loss = PFloat (Fin 0),
                  store_capital_cost = PFloat (Fin 0), store_e_nom_extendable = False,
                  store_e_nom_max = PFloat PosInf\<rparr>)],
      carriers = [PStr ''AC'', PStr ''DC'', PStr ''battery'']\<rparr>"

definition green_ammonia_config :: "(string \<times> pyval) list \<Rightarrow> pyval" where
  "green_ammonia_config ga = PDict [(''custom'', PDict [(''green_ammonia'', PDict ga)])]"

definition enabled_config :: pyval where
  "enabled_config = green_ammonia_config [(''enable'', PBool True)]"

definition disabled_config :: pyval where
  "disabled_config = green_ammonia_config [(''enable'', PBool False)]"

definition substring_config :: pyval where
  "substring_config =
     green_ammonia_config
       [(''enable'', PBool True), (''location'', PDict [(''bus_substring'', PStr ''NH3'')])]"

definition null_location_config :: pyval where
  "null_location_config =
     green_ammonia_config [(''enable'', PBool True), (''location'', PNone)]"

text \<open>
  The network after one call, and after a second call on the result, for the
  single-bus network and a configuration whose substring filter is \<^verbatim>\<open>NH3\<close>.
\<close>

definition once :: network where
  "once = snd (add_green_ammonia literal_lib single_bus_network () substring_config [])"

definition twice :: network where
  "twice = snd (add_green_ammonia literal_lib once () substring_config [])"

lemmas fixture_defs =
  literal_lib_def country_bus_def single_bus_network_def three_bus_network_def
  foreign_network_def linked_network_def green_ammonia_config_def enabled_config_def
  disabled_config_def substring_config_def null_location_config_def

section \<open>Rules for running the model\<close>

lemma try_pure_simps [simp]:
  "try_pure (Inl e) network k = (Inl e, network)"
  "try_pure (Inr v) network k = k v"
  by (simp_all add: try_pure_def)

lemma try_st_simps [simp]:
  "try_st (Inl e, network) k = (Inl e, network)"
  "try_st (Inr v, network) k = k v network"
  by (simp_all add: try_st_def)

text \<open>
  With these congruence rules the simplifier evaluates a call before it enters the
  continuation, as the interpreter does.
\<close>

lemma try_pure_weak_cong: "m = m' \<Longrightarrow> try_pure m network k = try_pure m' network k"
  by simp

lemma try_st_weak_cong: "m = m' \<Longrightarrow> try_st m k = try_st m' k"
  by simp

lemmas run_defs =
  get_cfg_def cfg_get_def ensure_carrier_def country_candidates_def narrow_def nearest_def
  closest_bus_def first_label_def add_bus_def add_electrolyser_def add_storage_def
  add_ccgt_def Let_def

lemma py_get_not_dict: "(\<And>d. v \<noteq> PDict d) \<Longrightarrow> py_get v key dflt = Inl AttributeError"
  by (cases v) auto

section \<open>The configuration resolver\<close>

text \<open>
  Claim C8, as stated: for every configuration mapping the resolver returns the value at
  the path \<^verbatim>\<open>custom.green_ammonia\<close>, an empty mapping when a key on the path is absent,
  and it never fails. The last part does not hold: when \<^verbatim>\<open>custom\<close> is present and is
  not a mapping (YAML \<^verbatim>\<open>custom:\<close> with nothing under it parses to \<^verbatim>\<open>None\<close>), the
  second \<^verbatim>\<open>.get\<close> raises \<^verbatim>\<open>AttributeError\<close>.
\<close>

theorem get_cfg_null_custom_fails:
  "get_cfg (PDict [(''custom'', PNone)]) = Inl AttributeError"
  by (simp add: get_cfg_def cfg_get_def)

text \<open>
  Claim C8, amended: for every configuration mapping in which \<^verbatim>\<open>custom\<close> is absent or
  is a mapping, the resolver does not fail: it returns the empty mapping when
  \<^verbatim>\<open>custom\<close> or \<^verbatim>\<open>green_ammonia\<close> is absent, and otherwise the value stored at
  \<^verbatim>\<open>custom.green_ammonia\<close>.
\<close>

theorem get_cfg_resolves:
  "(map_of cfg ''custom'' = None \<longrightarrow> get_cfg (PDict cfg) = Inr (PDict []))
   \<and> (\<forall>custom. map_of cfg ''custom'' = Some (PDict custom) \<longrightarrow>
         (map_of custom ''green_ammonia'' = None \<longrightarrow> get_cfg (PDict cfg) = Inr (PDict []))
       \<and> (\<forall>v. map_of custom ''green_ammonia'' = Some v \<longrightarrow> get_cfg (PDict cfg) = Inr v))"
  by (simp add: get_cfg_def cfg_get_def)

theorem get_cfg_resolves_witness:
  "map_of ([] :: (string \<times> pyval) list) ''custom'' = None
   \<and> get_cfg (PDict []) = Inr (PDict [])
   \<and> map_of [(''custom'', PDict [(''green_ammonia'', PDict [(''enable'', PBool True)])])]
        ''custom'' = Some (PDict [(''green_ammonia'', PDict [(''enable'', PBool True)])])
   \<and> map_of [(''green_ammonia'', PDict [(''enable'', PBool True)])] ''green_ammonia''
        = Some (PDict [(''enable'', PBool True)])
   \<and> get_cfg enabled_config = Inr (PDict [(''enable'', PBool True)])"
  using get_cfg_resolves [of "[]"]
    get_cfg_resolves [of "[(''custom'', PDict [(''green_ammonia'', PDict [(''enable'', PBool True)])])]"]
  by (simp add: enabled_config_def green_ammonia_config_def)

section \<open>The disabled hook\<close>

text \<open>
  Claim C4: when the \<^verbatim>\<open>enable\<close> flag of the resolved configuration is absent or false,
  \<^verbatim>\<open>add_green_ammonia\<close> returns and the network after the call is the network before
  it. The second part states the frame property for every call that is not enabled,
  the calls that raise while the configuration is resolved included.
\<close>

theorem disabled_hook_is_noop:
  "(get_cfg config = Inr (PDict ga) \<and>
      (map_of ga ''enable'' = None \<or> map_of ga ''enable'' = Some (PBool False)) \<longrightarrow>
      add_green_ammonia lib network snapshots config kwargs = (Inr (), network))
   \<and> ((\<forall>ga. get_cfg config = Inr (PDict ga) \<longrightarrow>
          \<not> truthy (cfg_get ga ''enable'' (PBool False))) \<longrightarrow>
      snd (add_green_ammonia lib network snapshots config kwargs) = network)"
proof (intro conjI impI)
  assume "get_cfg config = Inr (PDict ga) \<and>
      (map_of ga ''enable'' = None \<or> map_of ga ''enable'' = Some (PBool False))"
  then show "add_green_ammonia lib network snapshots config kwargs = (Inr (), network)"
    unfolding add_green_ammonia_def by (auto simp: cfg_get_def)
next
  assume off: "\<forall>ga. get_cfg config = Inr (PDict ga) \<longrightarrow>
    \<not> truthy (cfg_get ga ''enable'' (PBool False))"
  show "snd (add_green_ammonia lib network snapshots config kwargs) = network"
  proof (cases "get_cfg config")
    case (Inl e)
    then show ?thesis
      unfolding add_green_ammonia_def by simp
  next
    case (Inr v)
    show ?thesis
    proof (cases v)
      case (PDict ga)
      with Inr off have "\<not> truthy (cfg_get ga ''enable'' (PBool False))"
        by simp
      with Inr PDict show ?thesis
        unfolding add_green_ammonia_def by simp
    qed (use Inr in \<open>simp_all add: add_green_ammonia_def\<close>)
  qed
qed

theorem disabled_hook_is_noop_witness:
  "get_cfg disabled_config = Inr (PDict [(''enable'', PBool False)])
   \<and> map_of [(''enable'', PBool False)] ''enable'' = Some (PBool False)
   \<and> add_green_ammonia literal_lib single_bus_network () disabled_config []
        = (Inr (), single_bus_network)
   \<and> get_cfg (PDict []) = Inr (PDict [])
   \<and> map_of ([] :: (string \<times> pyval) list) ''enable'' = None
   \<and> add_green_ammonia literal_lib single_bus_network () (PDict []) []
        = (Inr (), single_bus_network)"
  using disabled_hook_is_noop [of disabled_config "[(''enable'', PBool False)]" literal_lib
      single_bus_network "()" "[]"]
    disabled_hook_is_noop [of "PDict []" "[]" literal_lib single_bus_network "()" "[]"]
  by (simp add: disabled_config_def green_ammonia_config_def get_cfg_def cfg_get_def)

section \<open>The unused arguments\<close>

text \<open>
  Claim C9: two calls that agree on the network and the configuration and differ in the
  time index or in the extra keyword arguments have the same outcome and leave the same
  network.
\<close>

theorem snapshots_and_kwargs_unused:
  "add_green_ammonia lib network snapshots config kwargs =
   add_green_ammonia lib network snapshots' config kwargs'"
  by (simp add: add_green_ammonia_def)

section \<open>The nearest-bus resolver\<close>

lemma narrow_nonempty:
  "narrow lib candidates bus_substring = Inr c \<Longrightarrow> candidates \<noteq> [] \<Longrightarrow> c \<noteq> []"
  by (auto simp: narrow_def Let_def split: if_splits pyval.splits option.splits)

text \<open>
  Claim C10: when the latitude or the longitude is \<^verbatim>\<open>None\<close>, also when only one of
  them is, \<^verbatim>\<open>_closest_bus\<close> returns the label of the first row of the filtered
  candidates, whatever the other coordinate is.
\<close>

theorem closest_bus_without_target:
  assumes "latitude = PNone \<or> longitude = PNone"
    and "country_candidates network country_code \<noteq> []"
    and "narrow lib (country_candidates network country_code) bus_substring = Inr candidates"
  shows "\<exists>row rest. candidates = row # rest \<and>
           closest_bus lib network country_code latitude longitude bus_substring
             = Inr (fst row)"
proof -
  from assms(2,3) have "candidates \<noteq> []"
    by (rule narrow_nonempty [rotated])
  then obtain row rest where c: "candidates = row # rest"
    by (cases candidates) auto
  have "nearest lib candidates latitude longitude = Inr (fst row)"
    using assms(1) c by (auto simp: nearest_def first_label_def)
  with assms(2,3) c show ?thesis
    by (simp add: closest_bus_def)
qed

theorem closest_bus_without_target_witness:
  "(PFloat (Fin 4) = PNone \<or> PNone = PNone)
   \<and> country_candidates three_bus_network (PStr ''ES'') \<noteq> []
   \<and> narrow literal_lib (country_candidates three_bus_network (PStr ''ES'')) PNone
        = Inr (buses three_bus_network)
   \<and> closest_bus literal_lib three_bus_network (PStr ''ES'') (PFloat (Fin 4)) PNone PNone
        = Inr ''ES0''"
  using closest_bus_without_target [where latitude = "PFloat (Fin 4)" and longitude = PNone
      and network = three_bus_network and country_code = "PStr ''ES''" and lib = literal_lib
      and bus_substring = PNone and candidates = "buses three_bus_network"]
  by (simp add: fixture_defs country_candidates_def narrow_def)




subsection \<open>Rounding to binary64\<close>

lemma round_even_int [simp]: "round_even (of_int k) = k"
  by (simp add: round_even_def)

lemma round_even_near:
  assumes "of_int k - 1 / 2 < x" and "x < of_int k + 1 / 2"
  shows "round_even x = k"
proof -
  have "\<lfloor>x\<rfloor> = k \<or> \<lfloor>x\<rfloor> = k - 1"
    using assms by linarith
  then show ?thesis
  proof
    assume f: "\<lfloor>x\<rfloor> = k"
    then have "x - of_int k < 1 / 2" using assms by linarith
    with f show ?thesis by (simp add: round_even_def)
  next
    assume f: "\<lfloor>x\<rfloor> = k - 1"
    then have "1 / 2 < x - of_int (k - 1)" using assms by simp
    with f show ?thesis by (simp add: round_even_def Let_def)
  qed
qed

lemma round_even_error: "\<bar>of_int (round_even x) - x\<bar> \<le> 1 / 2"
  unfolding round_even_def Let_def by (auto; linarith)

lemma quantum_pos: "0 < quantum x"
  by (simp add: quantum_def)

lemma quantum_eval:
  assumes "2 powr of_int e \<le> \<bar>x\<bar>" and "\<bar>x\<bar> < 2 powr of_int (e + 1)"
  shows "quantum x = 2 powr of_int (max (e - 52) (- 1074))"
proof -
  have "0 < \<bar>x\<bar>"
    using assms(1) by (smt (verit) powr_gt_zero)
  then have "\<lfloor>log 2 \<bar>x\<bar>\<rfloor> = e"
    using assms by (subst floor_log_eq_powr_iff) simp_all
  then show ?thesis
    by (simp add: quantum_def)
qed

lemma binary64_eval:
  assumes "2 powr of_int e \<le> \<bar>x\<bar>" and "\<bar>x\<bar> < 2 powr of_int (e + 1)"
    and "q = 2 powr of_int (max (e - 52) (- 1074))"
    and "of_int m - 1 / 2 < x / q" and "x / q < of_int m + 1 / 2"
    and "\<bar>of_int m * q\<bar> < 2 ^ 1024"
  shows "binary64 x = Fin (of_int m * q)"
proof -
  have nz: "x \<noteq> 0"
    using assms(1) by (smt (verit) powr_gt_zero)
  have qu: "quantum x = q"
    using quantum_eval [OF assms(1,2)] assms(3) by simp
  have "round_even (x / q) = m"
    using assms(4,5) by (rule round_even_near)
  with nz qu assms(6) show ?thesis
    by (simp add: binary64_def Let_def abs_less_iff)
qed

lemma binary64_error:
  assumes lo: "2 powr (- 1022) \<le> \<bar>x\<bar>" and hi: "\<bar>x\<bar> < 2 ^ 1023"
  shows "\<exists>r. binary64 x = Fin r \<and> \<bar>r - x\<bar> \<le> \<bar>x\<bar> / 2 ^ 53"
proof -
  have pos: "0 < \<bar>x\<bar>"
    using lo by (smt (verit) powr_gt_zero)
  define e where "e = \<lfloor>log 2 \<bar>x\<bar>\<rfloor>"
  have e: "2 powr of_int e \<le> \<bar>x\<bar>" "\<bar>x\<bar> < 2 powr of_int (e + 1)"
    using floor_log_eq_powr_iff [of "\<bar>x\<bar>" 2 e] pos unfolding e_def by simp_all
  have "- 1022 \<le> e"
  proof (rule ccontr)
    assume "\<not> - 1022 \<le> e"
    then have "of_int (e + 1) \<le> (- 1022 :: real)" by simp
    then have "2 powr of_int (e + 1) \<le> (2 :: real) powr (- 1022)"
      by (intro powr_mono) simp_all
    with e(2) lo show False by linarith
  qed
  then have m: "max (e - 52) (- 1074) = e - 52" by simp
  define q :: real where "q = 2 powr of_int (e - 52)"
  have qu: "quantum x = q"
    using quantum_eval [OF e] m unfolding q_def by simp
  have qpos: "0 < q" unfolding q_def by simp
  have q_le: "q / 2 \<le> \<bar>x\<bar> / 2 ^ 53"
  proof -
    have "q = 2 powr of_int e / 2 ^ 52"
      unfolding q_def by (simp add: powr_diff)
    then have "q / 2 = 2 powr of_int e / 2 ^ 53" by simp
    also have "\<dots> \<le> \<bar>x\<bar> / 2 ^ 53"
      using e(1) by (simp add: divide_right_mono)
    finally show ?thesis .
  qed
  define r where "r = of_int (round_even (x / q)) * q"
  have "\<bar>r - x\<bar> = \<bar>of_int (round_even (x / q)) - x / q\<bar> * q"
  proof -
    have "r - x = (of_int (round_even (x / q)) - x / q) * q"
      using qpos unfolding r_def by (simp add: field_simps)
    then show ?thesis
      using qpos by (simp add: abs_mult)
  qed
  also have "\<dots> \<le> (1 / 2) * q"
    using round_even_error [of "x / q"] qpos by (intro mult_right_mono) simp_all
  finally have err: "\<bar>r - x\<bar> \<le> \<bar>x\<bar> / 2 ^ 53"
    using q_le by simp
  have "\<bar>x\<bar> / 2 ^ 53 \<le> \<bar>x\<bar>"
    using pos by (simp add: field_simps)
  with err have "\<bar>r\<bar> \<le> 2 * \<bar>x\<bar>" by linarith
  with hi have "\<bar>r\<bar> < 2 ^ 1024" by simp
  then have "binary64 x = Fin r"
    using pos qu unfolding binary64_def r_def Let_def by (auto simp: abs_less_iff)
  with err show ?thesis by blast
qed

lemma binary64_representable:
  assumes x: "x = of_int m * 2 powr of_int q" and m: "\<bar>m\<bar> < 2 ^ 53"
    and q: "- 1074 \<le> q" and fin: "\<bar>x\<bar> < 2 ^ 1024"
  shows "binary64 x = Fin x"
proof (cases "x = 0")
  case True
  then show ?thesis by (simp add: binary64_def)
next
  case False
  then have pos: "0 < \<bar>x\<bar>" by simp
  define e where "e = \<lfloor>log 2 \<bar>x\<bar>\<rfloor>"
  have e: "2 powr of_int e \<le> \<bar>x\<bar>" "\<bar>x\<bar> < 2 powr of_int (e + 1)"
    using floor_log_eq_powr_iff [of "\<bar>x\<bar>" 2 e] pos unfolding e_def by simp_all
  have "\<bar>x\<bar> = \<bar>of_int m\<bar> * 2 powr of_int q"
    unfolding x by (simp add: abs_mult)
  also have "\<dots> < 2 ^ 53 * 2 powr of_int q"
    using m by (intro mult_strict_right_mono) (simp_all flip: of_int_abs)
  also have "\<dots> = 2 powr of_int (q + 53)"
    by (simp add: powr_add)
  finally have "2 powr of_int e < (2 :: real) powr of_int (q + 53)"
    using e(1) by linarith
  then have "e < q + 53"
    by simp
  define q' where "q' = max (e - 52) (- 1074)"
  have q': "q' \<le> q"
    using \<open>e < q + 53\<close> q unfolding q'_def by simp
  have qu: "quantum x = 2 powr of_int q'"
    using quantum_eval [OF e] unfolding q'_def by simp
  have "x / 2 powr of_int q' = of_int m * 2 powr of_int (q - q')"
    unfolding x by (simp add: powr_diff)
  also have "\<dots> = of_int m * 2 ^ nat (q - q')"
    using q' by (simp add: powr_realpow [symmetric])
  also have "\<dots> = of_int (m * 2 ^ nat (q - q'))"
    by simp
  finally have "round_even (x / 2 powr of_int q') = m * 2 ^ nat (q - q')"
    and again: "of_int (m * 2 ^ nat (q - q')) * 2 powr of_int q' = x"
    by (simp_all only: round_even_int) (simp add: field_simps)
  with qu fin False show ?thesis
    unfolding binary64_def Let_def by (simp add: abs_less_iff)
qed

lemma binary64_not_NaN [simp]: "binary64 x \<noteq> NaN"
  by (simp add: binary64_def Let_def)

subsection \<open>The order of floats\<close>

lemma f_ge_refl: "a \<noteq> NaN \<Longrightarrow> f_ge a a"
  by (cases a) simp_all

lemma f_ge_not_NaN: "f_ge a b \<Longrightarrow> a \<noteq> NaN \<and> b \<noteq> NaN"
  by (cases a; cases b) simp_all

lemma f_ge_below:
  "f_ge x m \<Longrightarrow> \<not> f_ge d m \<Longrightarrow> d \<noteq> NaN \<Longrightarrow> f_ge x d \<and> \<not> f_ge d x"
  by (cases x; cases m; cases d) simp_all

lemma f_ge_trans: "f_ge a b \<Longrightarrow> f_ge b c \<Longrightarrow> f_ge a c"
  by (cases a; cases b; cases c) simp_all

subsection \<open>The minimum of the distances\<close>

lemma argmin_scan_first_minimum:
  assumes "min_ind < length xs" and "xs ! min_ind = mp"
    and "\<forall>j<length xs. xs ! j \<noteq> NaN"
    and "\<forall>j<length xs. f_ge (xs ! j) mp" and "\<forall>j<min_ind. \<not> f_ge mp (xs ! j)"
  shows "argmin_scan ds (length xs) min_ind mp < length (xs @ ds)
    \<and> ((xs @ ds) ! argmin_scan ds (length xs) min_ind mp = NaN
         \<and> (\<forall>j<argmin_scan ds (length xs) min_ind mp. (xs @ ds) ! j \<noteq> NaN)
       \<or> (\<forall>j<length (xs @ ds). (xs @ ds) ! j \<noteq> NaN)
         \<and> (\<forall>j<length (xs @ ds).
               f_ge ((xs @ ds) ! j) ((xs @ ds) ! argmin_scan ds (length xs) min_ind mp))
         \<and> (\<forall>j<argmin_scan ds (length xs) min_ind mp.
               \<not> f_ge ((xs @ ds) ! argmin_scan ds (length xs) min_ind mp) ((xs @ ds) ! j)))"
  using assms
proof (induction ds arbitrary: xs min_ind mp)
  case Nil
  then show ?case by simp
next
  case (Cons d ds)
  have mp: "mp \<noteq> NaN"
    using Cons.prems(1,2,3) by auto
  show ?case
  proof (cases "f_ge d mp")
    case True
    then have d: "d \<noteq> NaN"
      using f_ge_not_NaN by blast
    let ?r = "argmin_scan ds (length (xs @ [d])) min_ind mp"
    have "?r < length ((xs @ [d]) @ ds)
      \<and> (((xs @ [d]) @ ds) ! ?r = NaN \<and> (\<forall>j<?r. ((xs @ [d]) @ ds) ! j \<noteq> NaN)
         \<or> (\<forall>j<length ((xs @ [d]) @ ds). ((xs @ [d]) @ ds) ! j \<noteq> NaN)
           \<and> (\<forall>j<length ((xs @ [d]) @ ds). f_ge (((xs @ [d]) @ ds) ! j) (((xs @ [d]) @ ds) ! ?r))
           \<and> (\<forall>j<?r. \<not> f_ge (((xs @ [d]) @ ds) ! ?r) (((xs @ [d]) @ ds) ! j)))"
    proof (rule Cons.IH)
      show "min_ind < length (xs @ [d])"
        using Cons.prems(1) by simp
      show "(xs @ [d]) ! min_ind = mp"
        using Cons.prems(1,2) by (simp add: nth_append)
      show "\<forall>j<length (xs @ [d]). (xs @ [d]) ! j \<noteq> NaN"
        using d Cons.prems(3) by (auto simp: nth_append less_Suc_eq)
      show "\<forall>j<length (xs @ [d]). f_ge ((xs @ [d]) ! j) mp"
        using True Cons.prems(4) by (auto simp: nth_append less_Suc_eq)
      show "\<forall>j<min_ind. \<not> f_ge mp ((xs @ [d]) ! j)"
        using Cons.prems(1,5) by (auto simp: nth_append)
    qed
    with True show ?thesis by simp
  next
    case False
    show ?thesis
    proof (cases "d = NaN")
      case True
      with False Cons.prems(3) show ?thesis
        by (auto simp: nth_append)
    next
      case d: False
      let ?r = "argmin_scan ds (length (xs @ [d])) (length xs) d"
      have "?r < length ((xs @ [d]) @ ds)
        \<and> (((xs @ [d]) @ ds) ! ?r = NaN \<and> (\<forall>j<?r. ((xs @ [d]) @ ds) ! j \<noteq> NaN)
           \<or> (\<forall>j<length ((xs @ [d]) @ ds). ((xs @ [d]) @ ds) ! j \<noteq> NaN)
             \<and> (\<forall>j<length ((xs @ [d]) @ ds). f_ge (((xs @ [d]) @ ds) ! j) (((xs @ [d]) @ ds) ! ?r))
             \<and> (\<forall>j<?r. \<not> f_ge (((xs @ [d]) @ ds) ! ?r) (((xs @ [d]) @ ds) ! j)))"
      proof (rule Cons.IH)
        show "length xs < length (xs @ [d])" by simp
        show "(xs @ [d]) ! length xs = d" by simp
        show "\<forall>j<length (xs @ [d]). (xs @ [d]) ! j \<noteq> NaN"
          using d Cons.prems(3) by (auto simp: nth_append less_Suc_eq)
        show "\<forall>j<length (xs @ [d]). f_ge ((xs @ [d]) ! j) d"
          using False d Cons.prems(4) f_ge_below [of _ mp d] f_ge_refl [of d]
          by (auto simp: nth_append less_Suc_eq)
        show "\<forall>j<length xs. \<not> f_ge d ((xs @ [d]) ! j)"
          using False d Cons.prems(4) f_ge_below [of _ mp d]
          by (auto simp: nth_append)
      qed
      with False d show ?thesis by simp
    qed
  qed
qed

lemma argmin_first_minimum:
  assumes "ds \<noteq> []"
  shows "\<exists>i<length ds. argmin ds = Inr i
           \<and> (ds ! i = NaN \<and> (\<forall>j<i. ds ! j \<noteq> NaN)
              \<or> (\<forall>j<length ds. ds ! j \<noteq> NaN)
                \<and> (\<forall>j<length ds. f_ge (ds ! j) (ds ! i))
                \<and> (\<forall>j<i. \<not> f_ge (ds ! i) (ds ! j)))"
proof -
  from assms obtain d rest where ds: "ds = d # rest" by (cases ds) auto
  show ?thesis
  proof (cases "d = NaN")
    case True
    then show ?thesis by (simp add: ds argmin_def)
  next
    case False
    let ?r = "argmin_scan rest (length [d]) 0 d"
    have "?r < length ([d] @ rest)
      \<and> (([d] @ rest) ! ?r = NaN \<and> (\<forall>j<?r. ([d] @ rest) ! j \<noteq> NaN)
         \<or> (\<forall>j<length ([d] @ rest). ([d] @ rest) ! j \<noteq> NaN)
           \<and> (\<forall>j<length ([d] @ rest). f_ge (([d] @ rest) ! j) (([d] @ rest) ! ?r))
           \<and> (\<forall>j<?r. \<not> f_ge (([d] @ rest) ! ?r) (([d] @ rest) ! j)))"
      using False by (intro argmin_scan_first_minimum) (simp_all add: f_ge_refl)
    with False show ?thesis
      by (simp add: ds argmin_def)
  qed
qed

subsection \<open>Values that need no rounding\<close>

lemma binary64_of_int:
  assumes "\<bar>k\<bar> < 2 ^ 53"
  shows "binary64 (of_int k) = Fin (of_int k)"
proof (rule binary64_representable [where m = k and q = 0])
  show "of_int k = of_int k * 2 powr of_int 0" by simp
  show "\<bar>k\<bar> < 2 ^ 53" by (rule assms)
  show "- 1074 \<le> (0 :: int)" by simp
  have "\<bar>real_of_int k\<bar> < 2 ^ 53"
    using assms by (metis of_int_abs of_int_less_numeral_power_cancel_iff)
  also have "\<dots> < (2 :: real) ^ 1024"
    by (rule power_strict_increasing) simp_all
  finally show "\<bar>real_of_int k\<bar> < 2 ^ 1024" .
qed

lemma binary64_numeral [simp]:
  "(numeral n :: int) < 2 ^ 53 \<Longrightarrow> binary64 (numeral n) = Fin (numeral n)"
  using binary64_of_int [of "numeral n"] by simp

lemma binary64_zero [simp]: "binary64 0 = Fin 0"
  by (simp add: binary64_def)

lemma binary64_one [simp]: "binary64 1 = Fin 1"
  using binary64_of_int [of 1] by simp

lemma binary64_inverse_power:
  assumes "n \<le> 1074"
  shows "binary64 (1 / 2 ^ n) = Fin (1 / 2 ^ n)"
proof (rule binary64_representable [where m = 1 and q = "- int n"])
  show "1 / 2 ^ n = real_of_int 1 * 2 powr of_int (- int n)"
    by (simp add: powr_minus powr_realpow divide_inverse)
  show "\<bar>1 :: int\<bar> < 2 ^ 53" by simp
  show "- 1074 \<le> - int n" using assms by simp
  have "\<bar>1 / (2 :: real) ^ n\<bar> \<le> 1" by (simp add: divide_le_eq)
  also have "\<dots> < (2 :: real) ^ 1024" by simp
  finally show "\<bar>1 / (2 :: real) ^ n\<bar> < 2 ^ 1024" .
qed

subsection \<open>No distance to a finite target is nan\<close>

lemma round_even_nonneg: "0 \<le> x \<Longrightarrow> 0 \<le> round_even x"
  by (simp add: round_even_def Let_def)

lemma binary64_nonneg:
  assumes "0 \<le> x"
  shows "binary64 x = PosInf \<or> (\<exists>r. 0 \<le> r \<and> binary64 x = Fin r)"
proof -
  have "0 \<le> x / quantum x"
    using assms quantum_pos [of x] by simp
  then have "0 \<le> real_of_int (round_even (x / quantum x)) * quantum x"
    using round_even_nonneg quantum_pos [of x] by simp
  then show ?thesis
    by (auto simp: binary64_def Let_def)
qed

lemma f_sq_nonneg:
  assumes "v \<noteq> NaN"
  shows "f_sq v = PosInf \<or> (\<exists>r. 0 \<le> r \<and> f_sq v = Fin r)"
proof (cases v)
  case (Fin a)
  then show ?thesis
    using binary64_nonneg [of "a * a"] by simp
qed (use assms in simp_all)

lemma f_sub_finite_not_NaN: "f_sub (binary64 c) (Fin a) \<noteq> NaN"
  by (cases "binary64 c") simp_all

lemma f_sqrt_f_add_not_NaN:
  assumes "u = PosInf \<or> (\<exists>r. 0 \<le> r \<and> u = Fin r)"
    and "v = PosInf \<or> (\<exists>r. 0 \<le> r \<and> v = Fin r)"
  shows "f_sqrt (f_add u v) \<noteq> NaN"
proof -
  have sum: "binary64 (r + s) = PosInf \<or> (\<exists>t. 0 \<le> t \<and> binary64 (r + s) = Fin t)"
    if "0 \<le> r" "0 \<le> s" for r s :: real
    using that by (intro binary64_nonneg) simp
  have "f_add u v = PosInf \<or> (\<exists>r. 0 \<le> r \<and> f_add u v = Fin r)"
  proof (cases u)
    case u: (Fin r)
    show ?thesis
    proof (cases v)
      case v: (Fin s)
      with u assms sum [of r s] show ?thesis by simp
    qed (use u assms in simp_all)
  next
    case PosInf
    with assms(2) show ?thesis by auto
  qed (use assms in simp_all)
  then show ?thesis
    by auto
qed

lemma distance_not_NaN: "distance (Fin a) (Fin b) bus \<noteq> NaN"
  unfolding distance_def
  by (intro f_sqrt_f_add_not_NaN f_sq_nonneg f_sub_finite_not_NaN)

lemma nearest_first_minimum:
  assumes "candidates \<noteq> []"
    and "np_float lib latitude = Inr (Fin a)" and "np_float lib longitude = Inr (Fin b)"
  shows "\<exists>i<length candidates.
           nearest lib candidates latitude longitude = Inr (fst (candidates ! i))
         \<and> (\<forall>j<length candidates.
               f_ge (distance (Fin a) (Fin b) (snd (candidates ! j)))
                    (distance (Fin a) (Fin b) (snd (candidates ! i))))
         \<and> (\<forall>j<i. \<not> f_ge (distance (Fin a) (Fin b) (snd (candidates ! i)))
                          (distance (Fin a) (Fin b) (snd (candidates ! j))))"
proof -
  let ?ds = "distances candidates (Fin a) (Fin b)"
  have "?ds \<noteq> []"
    using assms(1) by (simp add: distances_def)
  from argmin_first_minimum [OF this]
  obtain i where i: "i < length ?ds" "argmin ?ds = Inr i"
    and alt: "?ds ! i = NaN \<and> (\<forall>j<i. ?ds ! j \<noteq> NaN)
       \<or> (\<forall>j<length ?ds. ?ds ! j \<noteq> NaN) \<and> (\<forall>j<length ?ds. f_ge (?ds ! j) (?ds ! i))
         \<and> (\<forall>j<i. \<not> f_ge (?ds ! i) (?ds ! j))"
    by blast
  have len: "length ?ds = length candidates"
    by (simp add: distances_def)
  have nth: "?ds ! j = distance (Fin a) (Fin b) (snd (candidates ! j))"
    if "j < length candidates" for j
    using that by (simp add: distances_def)
  have "?ds ! i \<noteq> NaN"
    using i(1) len nth distance_not_NaN by simp
  with alt have min: "\<forall>j<length ?ds. f_ge (?ds ! j) (?ds ! i)"
    and first: "\<forall>j<i. \<not> f_ge (?ds ! i) (?ds ! j)"
    by blast+
  have some: "latitude \<noteq> PNone" "longitude \<noteq> PNone"
    using assms(2,3) by auto
  have "nearest lib candidates latitude longitude = Inr (fst (candidates ! i))"
    using some assms(2,3) i(2) by (simp add: nearest_def)
  moreover have "\<forall>j<length candidates.
      f_ge (distance (Fin a) (Fin b) (snd (candidates ! j)))
           (distance (Fin a) (Fin b) (snd (candidates ! i)))"
    using min i(1) len nth by simp
  moreover have "\<forall>j<i. \<not> f_ge (distance (Fin a) (Fin b) (snd (candidates ! i)))
                          (distance (Fin a) (Fin b) (snd (candidates ! j)))"
    using first i(1) len nth by simp
  ultimately show ?thesis
    using i(1) len by auto
qed

subsection \<open>Bounds on a rounded distance\<close>

lemma binary64_interval:
  assumes lo: "1 / 2 ^ 100 \<le> lo" and x: "lo \<le> \<bar>x\<bar>" "\<bar>x\<bar> \<le> hi" and hi: "hi \<le> 2 ^ 100"
  shows "\<exists>r. binary64 x = Fin r \<and> lo * (1023 / 1024) \<le> \<bar>r\<bar> \<and> \<bar>r\<bar> \<le> hi * (1025 / 1024)
           \<and> (0 \<le> x \<longrightarrow> 0 \<le> r)"
proof -
  have "(2 :: real) powr (- 1022) = 1 / 2 ^ 1022"
    by (simp add: powr_minus_divide powr_realpow [symmetric])
  also have "\<dots> \<le> 1 / 2 ^ 100"
    by simp
  finally have "2 powr (- 1022) \<le> \<bar>x\<bar>"
    using lo x(1) by linarith
  moreover have "\<bar>x\<bar> < 2 ^ 1023"
  proof -
    have "\<bar>x\<bar> \<le> 2 ^ 100" using x(2) hi by linarith
    also have "\<dots> < (2 :: real) ^ 1023" by simp
    finally show ?thesis .
  qed
  ultimately obtain r where r: "binary64 x = Fin r" "\<bar>r - x\<bar> \<le> \<bar>x\<bar> / 2 ^ 53"
    using binary64_error by blast
  have "\<bar>x\<bar> / 2 ^ 53 \<le> \<bar>x\<bar> / 1024"
    by (intro divide_left_mono) simp_all
  with r(2) have e: "\<bar>r - x\<bar> \<le> \<bar>x\<bar> / 1024"
    by linarith
  then have "lo * (1023 / 1024) \<le> \<bar>r\<bar>" "\<bar>r\<bar> \<le> hi * (1025 / 1024)" "0 \<le> x \<longrightarrow> 0 \<le> r"
    using x by (auto simp: abs_le_iff abs_if split: if_splits)
  with r(1) show ?thesis
    by blast
qed

lemma distance_interval:
  assumes y: "binary64 (bus_y bus) = Fin (bus_y bus)"
    and x: "binary64 (bus_x bus) = Fin (bus_x bus)"
    and lo: "1 / 2 ^ 10 \<le> lo" and hi: "hi \<le> 2 ^ 10"
    and ylo: "lo \<le> \<bar>bus_y bus - a\<bar>" and yhi: "\<bar>bus_y bus - a\<bar> \<le> hi"
    and xlo: "lo \<le> \<bar>bus_x bus - b\<bar>" and xhi: "\<bar>bus_x bus - b\<bar> \<le> hi"
  shows "\<exists>d. distance (Fin a) (Fin b) bus = Fin d \<and> lo \<le> d \<and> d \<le> 2 * hi"
proof -
  define c :: real where "c = 1023 / 1024"
  define C :: real where "C = 1025 / 1024"
  have lo_pos: "0 < lo"
    using lo by (smt (verit) divide_pos_pos zero_less_power)
  have lohi: "lo \<le> hi"
    using ylo yhi by linarith
  have lo100: "1 / 2 ^ 100 \<le> lo"
  proof -
    have "1 / 2 ^ 100 \<le> 1 / (2 :: real) ^ 10" by simp
    with lo show ?thesis by linarith
  qed
  have hi100: "hi \<le> 2 ^ 100"
  proof -
    have "(2 :: real) ^ 10 \<le> 2 ^ 100" by simp
    with hi show ?thesis by linarith
  qed
  have square: "\<exists>s. f_sq (f_sub (Fin u) (Fin t)) = Fin s
      \<and> lo * lo * (c * c * c) \<le> s \<and> s \<le> hi * hi * (C * C * C)"
    if low: "lo \<le> \<bar>u - t\<bar>" and high: "\<bar>u - t\<bar> \<le> hi" for u t
  proof -
    obtain d where d: "binary64 (u - t) = Fin d" "lo * c \<le> \<bar>d\<bar>" "\<bar>d\<bar> \<le> hi * C"
      using binary64_interval [OF lo100 low high hi100] unfolding c_def C_def by blast
    have lc: "0 \<le> lo * c"
      using lo_pos by (simp add: c_def)
    have l2: "(lo * c) * (lo * c) \<le> \<bar>d * d\<bar>"
      unfolding abs_mult using d(2) lc by (intro mult_mono) simp_all
    have h2: "\<bar>d * d\<bar> \<le> (hi * C) * (hi * C)"
      unfolding abs_mult using d(3) by (intro mult_mono) simp_all
    have "1 / 2 ^ 100 \<le> (1 / 2 ^ 10 * c) * (1 / 2 ^ 10 * c)"
      by (simp add: c_def)
    also have "\<dots> \<le> (lo * c) * (lo * c)"
      using lo by (intro mult_mono) (simp_all add: c_def)
    finally have low': "1 / 2 ^ 100 \<le> (lo * c) * (lo * c)" .
    have "(hi * C) * (hi * C) \<le> (2 ^ 10 * C) * (2 ^ 10 * C)"
      using hi lo_pos lohi by (intro mult_mono) (simp_all add: C_def)
    also have "\<dots> \<le> 2 ^ 100"
      by (simp add: C_def)
    finally have high': "(hi * C) * (hi * C) \<le> 2 ^ 100" .
    obtain s where s: "binary64 (d * d) = Fin s" "(lo * c) * (lo * c) * c \<le> \<bar>s\<bar>"
      "\<bar>s\<bar> \<le> (hi * C) * (hi * C) * C" "0 \<le> s"
      using binary64_interval [OF low' l2 h2 high'] unfolding c_def C_def by auto
    from s(2,3,4) have "lo * lo * (c * c * c) \<le> s" "s \<le> hi * hi * (C * C * C)"
      by (simp_all add: mult_ac)
    moreover have "f_sq (f_sub (Fin u) (Fin t)) = Fin s"
      using d(1) s(1) by simp
    ultimately show ?thesis
      by blast
  qed
  obtain sy where sy: "f_sq (f_sub (Fin (bus_y bus)) (Fin a)) = Fin sy"
    "lo * lo * (c * c * c) \<le> sy" "sy \<le> hi * hi * (C * C * C)"
    using square [OF ylo yhi] by blast
  obtain sx where sx: "f_sq (f_sub (Fin (bus_x bus)) (Fin b)) = Fin sx"
    "lo * lo * (c * c * c) \<le> sx" "sx \<le> hi * hi * (C * C * C)"
    using square [OF xlo xhi] by blast
  have ll: "1 / 2 ^ 20 \<le> lo * lo"
  proof -
    have "1 / 2 ^ 20 = (1 / 2 ^ 10) * (1 / (2 :: real) ^ 10)" by simp
    also have "\<dots> \<le> lo * lo"
      using lo by (intro mult_mono) simp_all
    finally show ?thesis .
  qed
  have hh: "hi * hi \<le> 2 ^ 20"
  proof -
    have "hi * hi \<le> 2 ^ 10 * 2 ^ 10"
      using hi lo_pos lohi by (intro mult_mono) simp_all
    then show ?thesis by simp
  qed
  have ll0: "0 \<le> lo * lo" and hh0: "0 \<le> hi * hi"
    by simp_all
  have sum_lo: "2 * (lo * lo) * (c * c * c) \<le> \<bar>sy + sx\<bar>"
    using sy(2) sx(2) by linarith
  have sum_hi: "\<bar>sy + sx\<bar> \<le> 2 * (hi * hi) * (C * C * C)"
  proof -
    have "0 \<le> lo * lo * (c * c * c)"
      using ll0 by (simp add: c_def)
    with sy(2,3) sx(2,3) show ?thesis by linarith
  qed
  have sum_pos: "0 \<le> sy + sx"
  proof -
    have "0 \<le> lo * lo * (c * c * c)"
      using ll0 by (simp add: c_def)
    with sy(2) sx(2) show ?thesis by linarith
  qed
  have "1 / 2 ^ 100 \<le> 2 * (1 / 2 ^ 20) * (c * c * c)"
    by (simp add: c_def)
  also have "\<dots> \<le> 2 * (lo * lo) * (c * c * c)"
    using ll by (simp add: c_def)
  finally have low'': "1 / 2 ^ 100 \<le> 2 * (lo * lo) * (c * c * c)" .
  have "2 * (hi * hi) * (C * C * C) \<le> 2 * 2 ^ 20 * (C * C * C)"
    using hh by (simp add: C_def)
  also have "\<dots> \<le> 2 ^ 100"
    by (simp add: C_def)
  finally have high'': "2 * (hi * hi) * (C * C * C) \<le> 2 ^ 100" .
  obtain s where s: "binary64 (sy + sx) = Fin s" "2 * (lo * lo) * (c * c * c) * c \<le> \<bar>s\<bar>"
    "\<bar>s\<bar> \<le> 2 * (hi * hi) * (C * C * C) * C" "0 \<le> s"
    using binary64_interval [OF low'' sum_lo sum_hi high''] sum_pos unfolding c_def C_def
    by auto
  have root_lo: "lo / c \<le> \<bar>sqrt s\<bar>"
  proof -
    have "(lo / c)\<^sup>2 = (lo * lo) * (1 / (c * c))"
      by (simp add: power2_eq_square)
    also have "\<dots> \<le> (lo * lo) * (2 * (c * c * c) * c)"
      using ll0 by (intro mult_left_mono) (simp_all add: c_def)
    also have "\<dots> \<le> s"
      using s(2,4) by (simp add: mult_ac)
    finally have "lo / c \<le> sqrt s"
      by (rule real_le_rsqrt)
    then show ?thesis by linarith
  qed
  have root_hi: "\<bar>sqrt s\<bar> \<le> 2 * hi / C"
  proof -
    have "s \<le> (hi * hi) * (2 * (C * C * C) * C)"
      using s(3,4) by (simp add: mult_ac)
    also have "\<dots> \<le> (hi * hi) * (4 / (C * C))"
      using hh0 by (intro mult_left_mono) (simp_all add: C_def)
    also have "\<dots> = (2 * hi / C)\<^sup>2"
      by (simp add: power2_eq_square)
    finally have "sqrt s \<le> 2 * hi / C"
      using lo_pos lohi by (intro real_le_lsqrt) (simp_all add: C_def)
    with s(4) show ?thesis by simp
  qed
  have "1 / 2 ^ 100 \<le> lo / c"
  proof -
    have "lo \<le> lo / c"
      using lo_pos by (simp add: c_def)
    with lo100 show ?thesis by linarith
  qed
  moreover have "2 * hi / C \<le> 2 ^ 100"
  proof -
    have "2 * hi / C \<le> 2 * hi"
      using lo_pos lohi by (simp add: C_def)
    also have "\<dots> \<le> 2 * 2 ^ 10" using hi by simp
    also have "\<dots> \<le> (2 :: real) ^ 100" by simp
    finally show ?thesis .
  qed
  ultimately obtain d where d: "binary64 (sqrt s) = Fin d" "lo / c * (1023 / 1024) \<le> \<bar>d\<bar>"
    "\<bar>d\<bar> \<le> 2 * hi / C * (1025 / 1024)" "0 \<le> d"
    using binary64_interval [OF _ root_lo root_hi] s(4) by auto
  have "lo \<le> d" "d \<le> 2 * hi"
    using d(2,3,4) by (simp_all add: c_def C_def)
  moreover have "distance (Fin a) (Fin b) bus = Fin d"
    using y x sy(1) sx(1) s(1,4) d(1) by (simp add: distance_def)
  ultimately show ?thesis
    by blast
qed

lemma binary64_nine_tenths:
  "\<exists>t. binary64 (9 / 10) = Fin t \<and> 89 / 100 \<le> t \<and> t \<le> 91 / 100"
  using binary64_interval [of "9 / 10" "9 / 10" "9 / 10"] by auto

lemma three_bus_example:
  "closest_bus literal_lib three_bus_network (PStr ''ES'') (PFloat (Fin (9 / 10)))
     (PFloat (Fin (9 / 10))) PNone = Inr ''ES1''"
proof -
  obtain t where t: "binary64 (9 / 10) = Fin t" "89 / 100 \<le> t" "t \<le> 91 / 100"
    using binary64_nine_tenths by blast
  obtain d0 where d0: "distance (Fin t) (Fin t) (country_bus ''ES'' 0 0) = Fin d0" "89 / 100 \<le> d0"
    using distance_interval [of "country_bus ''ES'' 0 0" "89 / 100" "91 / 100" t t] t(2,3)
    by (auto simp: country_bus_def)
  obtain d1 where d1: "distance (Fin t) (Fin t) (country_bus ''ES'' 1 1) = Fin d1" "d1 \<le> 22 / 100"
    using distance_interval [of "country_bus ''ES'' 1 1" "9 / 100" "11 / 100" t t] t(2,3)
    by (auto simp: country_bus_def)
  obtain d5 where d5: "distance (Fin t) (Fin t) (country_bus ''ES'' 5 5) = Fin d5" "409 / 100 \<le> d5"
    using distance_interval [of "country_bus ''ES'' 5 5" "409 / 100" "411 / 100" t t] t(2,3)
    by (auto simp: country_bus_def)
  have c: "country_candidates three_bus_network (PStr ''ES'') = buses three_bus_network"
    by (simp add: country_candidates_def three_bus_network_def country_bus_def)
  have ds: "distances (buses three_bus_network) (Fin t) (Fin t) = [Fin d0, Fin d1, Fin d5]"
    by (simp add: distances_def three_bus_network_def d0(1) d1(1) d5(1))
  have "argmin [Fin d0, Fin d1, Fin d5] = Inr 1"
    using d0(2) d1(2) d5(2) by (simp add: argmin_def)
  then have "nearest literal_lib (buses three_bus_network) (PFloat (Fin (9 / 10)))
      (PFloat (Fin (9 / 10))) = Inr ''ES1''"
    by (simp add: nearest_def t(1) ds) (simp add: three_bus_network_def)
  moreover have "buses three_bus_network \<noteq> []"
    by (simp add: three_bus_network_def)
  ultimately show ?thesis
    by (simp add: closest_bus_def c narrow_def)
qed

lemma sqrt_25: "sqrt 25 = 5"
  by (rule real_sqrt_unique) simp_all

lemma sqrt_36: "sqrt 36 = 6"
  by (rule real_sqrt_unique) simp_all

lemma distance_east: "distance (Fin 1) (Fin 0) (country_bus ''ES'' 1 6) = Fin 6"
  by (simp add: distance_def country_bus_def sqrt_36)

lemma distance_north: "distance (Fin 1) (Fin 0) (country_bus ''ES'' 5 3) = Fin 5"
  by (simp add: distance_def country_bus_def sqrt_25)

lemma binary64_one_plus_tiny: "binary64 (1 / 2 ^ 60 + 1) = Fin 1"
proof -
  have "binary64 (1 / 2 ^ 60 + 1) = Fin (of_int (2 ^ 52) * 2 powr of_int (max (0 - 52) (- 1074)))"
  proof (rule binary64_eval [where e = 0])
    show "2 powr real_of_int 0 \<le> \<bar>1 / 2 ^ 60 + (1 :: real)\<bar>" by simp
    show "\<bar>1 / 2 ^ 60 + (1 :: real)\<bar> < 2 powr real_of_int (0 + 1)" by simp
    show "2 powr real_of_int (max (0 - 52) (- 1074)) = 2 powr real_of_int (max (0 - 52) (- 1074))"
      by simp
    show "real_of_int (2 ^ 52) - 1 / 2
        < (1 / 2 ^ 60 + 1) / 2 powr real_of_int (max (0 - 52) (- 1074))"
      by (simp add: powr_minus field_simps)
    show "(1 / 2 ^ 60 + 1) / 2 powr real_of_int (max (0 - 52) (- 1074))
        < real_of_int (2 ^ 52) + 1 / 2"
      by (simp add: powr_minus field_simps)
    show "\<bar>real_of_int (2 ^ 52) * 2 powr real_of_int (max (0 - 52) (- 1074))\<bar> < 2 ^ 1024"
      by (simp add: powr_minus)
  qed
  then show ?thesis
    by (simp add: powr_minus)
qed

lemma distance_tie_B:
  "distance (Fin 0) (Fin 0) (country_bus ''ES'' (1 / 2 ^ 30) 1) = Fin 1"
proof -
  have y: "binary64 (1 / 2 ^ 30) = Fin (1 / 2 ^ 30)"
    by (rule binary64_inverse_power) simp
  have "(1 / 2 ^ 30) * (1 / 2 ^ 30) = 1 / (2 :: real) ^ 60"
    by simp
  then have sq: "binary64 ((1 / 2 ^ 30) * (1 / 2 ^ 30)) = Fin (1 / 2 ^ 60)"
    using binary64_inverse_power [of 60] by simp
  show ?thesis
    unfolding distance_def country_bus_def
    using y sq binary64_one_plus_tiny by simp
qed

lemma distance_tie_A:
  "distance (Fin 0) (Fin 0) (country_bus ''ES'' 0 1) = Fin 1"
  by (simp add: distance_def country_bus_def)

text \<open>
  Claim C2, as stated: for a non-empty candidate set and a supplied target, the resolver
  returns the candidate whose Euclidean distance to the target is minimal, the first one
  when several are. The source computes the distance in binary64, and rounding can make
  two distances equal that differ over the reals. In the network below \<^verbatim>\<open>A\<close> is
  strictly nearer to the target (0, 0) than \<^verbatim>\<open>B\<close>, which is listed first; both
  computed distances are 1, and the resolver returns \<^verbatim>\<open>B\<close>.
\<close>

theorem nearest_bus_rounding_counterexample:
  "map fst (buses tie_network) = [''B'', ''A'']
   \<and> map_of (buses tie_network) ''B'' = Some (country_bus ''ES'' (1 / 2 ^ 30) 1)
   \<and> map_of (buses tie_network) ''A'' = Some (country_bus ''ES'' 0 1)
   \<and> euclidean 0 0 (country_bus ''ES'' 0 1) < euclidean 0 0 (country_bus ''ES'' (1 / 2 ^ 30) 1)
   \<and> closest_bus literal_lib tie_network (PStr ''ES'') (PFloat (Fin 0)) (PFloat (Fin 0)) PNone
        = Inr ''B''"
proof -
  have c: "country_candidates tie_network (PStr ''ES'') = buses tie_network"
    by (simp add: country_candidates_def tie_network_def country_bus_def)
  have d: "distances (buses tie_network) (Fin 0) (Fin 0) = [Fin 1, Fin 1]"
    by (simp add: distances_def tie_network_def distance_tie_A distance_tie_B [simplified])
  have "nearest literal_lib (buses tie_network) (PFloat (Fin 0)) (PFloat (Fin 0)) = Inr ''B''"
    by (simp add: nearest_def d argmin_def) (simp add: tie_network_def)
  moreover have "buses tie_network \<noteq> []"
    by (simp add: tie_network_def)
  ultimately have "closest_bus literal_lib tie_network (PStr ''ES'') (PFloat (Fin 0))
      (PFloat (Fin 0)) PNone = Inr ''B''"
    by (simp add: closest_bus_def c narrow_def)
  then show ?thesis
    by (simp add: tie_network_def euclidean_def country_bus_def)
qed

text \<open>
  Claim C2, amended: for a non-empty candidate set and a finite target, the resolver
  returns the label of the first candidate whose distance as the source computes it is
  minimal: the differences of the binary64 coordinates \<^verbatim>\<open>y\<close> and \<^verbatim>\<open>x\<close> with
  the binary64 latitude and longitude, their squares, the sum of the squares and its
  square root, each rounded to binary64. No candidate has a smaller computed distance,
  and every candidate before the one returned has a strictly greater one. With buses
  at (0,0), (1,1) and (5,5) in country ES and the target (0.9, 0.9) the answer is the bus
  at (1,1).
\<close>

theorem closest_bus_minimal_distance:
  "(country_candidates network country_code \<noteq> [] \<longrightarrow>
    narrow lib (country_candidates network country_code) bus_substring = Inr candidates \<longrightarrow>
    np_float lib latitude = Inr (Fin a) \<longrightarrow>
    np_float lib longitude = Inr (Fin b) \<longrightarrow>
    (\<exists>i<length candidates.
        closest_bus lib network country_code latitude longitude bus_substring
          = Inr (fst (candidates ! i))
      \<and> (\<forall>j<length candidates.
            f_ge (f_sqrt (f_add (f_sq (f_sub (binary64 (bus_y (snd (candidates ! j)))) (Fin a)))
                                (f_sq (f_sub (binary64 (bus_x (snd (candidates ! j)))) (Fin b)))))
                 (f_sqrt (f_add (f_sq (f_sub (binary64 (bus_y (snd (candidates ! i)))) (Fin a)))
                                (f_sq (f_sub (binary64 (bus_x (snd (candidates ! i)))) (Fin b))))))
      \<and> (\<forall>j<i.
            \<not> f_ge (f_sqrt (f_add (f_sq (f_sub (binary64 (bus_y (snd (candidates ! i)))) (Fin a)))
                                  (f_sq (f_sub (binary64 (bus_x (snd (candidates ! i)))) (Fin b)))))
                   (f_sqrt (f_add (f_sq (f_sub (binary64 (bus_y (snd (candidates ! j)))) (Fin a)))
                                  (f_sq (f_sub (binary64 (bus_x (snd (candidates ! j)))) (Fin b))))))))
   \<and> closest_bus literal_lib three_bus_network (PStr ''ES'') (PFloat (Fin (9 / 10)))
        (PFloat (Fin (9 / 10))) PNone = Inr ''ES1''"
proof (intro conjI impI)
  assume c: "country_candidates network country_code \<noteq> []"
    and n: "narrow lib (country_candidates network country_code) bus_substring = Inr candidates"
    and la: "np_float lib latitude = Inr (Fin a)" and lo: "np_float lib longitude = Inr (Fin b)"
  from n c have "candidates \<noteq> []" by (rule narrow_nonempty)
  from nearest_first_minimum [OF this la lo] c n
  show "\<exists>i<length candidates.
        closest_bus lib network country_code latitude longitude bus_substring
          = Inr (fst (candidates ! i))
      \<and> (\<forall>j<length candidates.
            f_ge (f_sqrt (f_add (f_sq (f_sub (binary64 (bus_y (snd (candidates ! j)))) (Fin a)))
                                (f_sq (f_sub (binary64 (bus_x (snd (candidates ! j)))) (Fin b)))))
                 (f_sqrt (f_add (f_sq (f_sub (binary64 (bus_y (snd (candidates ! i)))) (Fin a)))
                                (f_sq (f_sub (binary64 (bus_x (snd (candidates ! i)))) (Fin b))))))
      \<and> (\<forall>j<i.
            \<not> f_ge (f_sqrt (f_add (f_sq (f_sub (binary64 (bus_y (snd (candidates ! i)))) (Fin a)))
                                  (f_sq (f_sub (binary64 (bus_x (snd (candidates ! i)))) (Fin b)))))
                   (f_sqrt (f_add (f_sq (f_sub (binary64 (bus_y (snd (candidates ! j)))) (Fin a)))
                                  (f_sq (f_sub (binary64 (bus_x (snd (candidates ! j)))) (Fin b))))))"
    by (simp add: closest_bus_def distance_def)
next
  show "closest_bus literal_lib three_bus_network (PStr ''ES'') (PFloat (Fin (9 / 10)))
        (PFloat (Fin (9 / 10))) PNone = Inr ''ES1''"
    by (rule three_bus_example)
qed

theorem closest_bus_minimal_distance_witness:
  "country_candidates offset_network (PStr ''ES'') \<noteq> []
   \<and> narrow literal_lib (country_candidates offset_network (PStr ''ES'')) PNone
        = Inr (buses offset_network)
   \<and> np_float literal_lib (PInt 1) = Inr (Fin 1)
   \<and> np_float literal_lib (PFloat (Fin 0)) = Inr (Fin 0)
   \<and> map (\<lambda>row. distance (Fin 1) (Fin 0) (snd row)) (buses offset_network) = [Fin 6, Fin 5]
   \<and> map (\<lambda>row. euclidean 1 0 (snd row)) (buses offset_network) = [6, 5]
   \<and> closest_bus literal_lib offset_network (PStr ''ES'') (PInt 1) (PFloat (Fin 0)) PNone
        = Inr ''north''"
proof -
  have c: "country_candidates offset_network (PStr ''ES'') = buses offset_network"
    by (simp add: country_candidates_def offset_network_def country_bus_def)
  have ne: "buses offset_network \<noteq> []"
    by (simp add: offset_network_def)
  have ds: "map (\<lambda>row. distance (Fin 1) (Fin 0) (snd row)) (buses offset_network) = [Fin 6, Fin 5]"
    by (simp add: offset_network_def distance_east distance_north)
  have eu: "map (\<lambda>row. euclidean 1 0 (snd row)) (buses offset_network) = [6, 5]"
    by (simp add: offset_network_def euclidean_def country_bus_def sqrt_25 sqrt_36)
  have "nearest literal_lib (buses offset_network) (PInt 1) (PFloat (Fin 0)) = Inr ''north''"
    using ds by (simp add: nearest_def distances_def argmin_def) (simp add: offset_network_def)
  with ne have cb: "closest_bus literal_lib offset_network (PStr ''ES'') (PInt 1) (PFloat (Fin 0))
      PNone = Inr ''north''"
    by (simp add: closest_bus_def c narrow_def)
  show ?thesis
    using closest_bus_minimal_distance [where network = offset_network
        and country_code = "PStr ''ES''" and lib = literal_lib and bus_substring = PNone
        and candidates = "buses offset_network" and latitude = "PInt 1"
        and longitude = "PFloat (Fin 0)" and a = 1 and b = 0]
    using c ne ds eu cb by (simp add: narrow_def)
qed

section \<open>The missing country\<close>

lemma closest_bus_no_candidates:
  "country_candidates network country_code = [] \<Longrightarrow>
   closest_bus lib network country_code latitude longitude bus_substring = Inl ValueError"
  by (simp add: closest_bus_def)

text \<open>
  Claim C3, as stated: with no bus in the requested country an enabled call raises an
  error of the \<^verbatim>\<open>LookupError\<close> class, leaves the network unchanged, and this is the
  only fatal runtime condition. The source raises \<^verbatim>\<open>ValueError\<close>, which is not a
  \<^verbatim>\<open>LookupError\<close>; and a network that has a bus in the country still makes the call
  fail when \<^verbatim>\<open>location\<close> is present and is not a mapping (YAML \<^verbatim>\<open>location:\<close>
  with nothing under it), with \<^verbatim>\<open>AttributeError\<close>.
\<close>

theorem missing_country_counterexample:
  "country_candidates foreign_network (PStr ''ES'') = []
   \<and> fst (add_green_ammonia literal_lib foreign_network () enabled_config []) = Inl ValueError
   \<and> \<not> is_LookupError ValueError
   \<and> country_candidates single_bus_network (PStr ''ES'') \<noteq> []
   \<and> add_green_ammonia literal_lib single_bus_network () null_location_config []
        = (Inl AttributeError, single_bus_network)"
  unfolding add_green_ammonia_def
  by (simp add: fixture_defs run_defs cong: try_pure_weak_cong try_st_weak_cong)

text \<open>
  Claim C3, amended: for every network with no bus whose country equals the requested
  code, an enabled call whose \<^verbatim>\<open>location\<close> entry is absent or a mapping raises
  \<^verbatim>\<open>ValueError\<close> and leaves the network unchanged.
\<close>

theorem missing_country_raises_ValueError:
  assumes "get_cfg config = Inr (PDict ga)"
    and "truthy (cfg_get ga ''enable'' (PBool False))"
    and "cfg_get ga ''location'' (PDict []) = PDict location"
    and "country_candidates network (cfg_get ga ''country_code'' (PStr ''ES'')) = []"
  shows "add_green_ammonia lib network snapshots config kwargs = (Inl ValueError, network)"
  unfolding add_green_ammonia_def
  using assms by (simp add: closest_bus_no_candidates)

theorem missing_country_raises_ValueError_witness:
  "get_cfg enabled_config = Inr (PDict [(''enable'', PBool True)])
   \<and> truthy (cfg_get [(''enable'', PBool True)] ''enable'' (PBool False))
   \<and> cfg_get [(''enable'', PBool True)] ''location'' (PDict []) = PDict []
   \<and> country_candidates foreign_network
        (cfg_get [(''enable'', PBool True)] ''country_code'' (PStr ''ES'')) = []
   \<and> add_green_ammonia literal_lib foreign_network () enabled_config []
        = (Inl ValueError, foreign_network)"
  using missing_country_raises_ValueError [where config = enabled_config
      and ga = "[(''enable'', PBool True)]" and location = "[]" and network = foreign_network
      and lib = literal_lib and snapshots = "()" and kwargs = "[]"]
  by (simp add: fixture_defs run_defs)

section \<open>What the insertion steps leave unchanged\<close>

lemma ensure_carrier_frame:
  "buses (snd (ensure_carrier n name)) = buses n"
  "links (snd (ensure_carrier n name)) = links n"
  "stores (snd (ensure_carrier n name)) = stores n"
  by (cases name; simp add: ensure_carrier_def)+

lemma try_st_unfold:
  "try_st m k = (case fst m of Inl e \<Rightarrow> (Inl e, snd m) | Inr v \<Rightarrow> k v (snd m))"
  by (simp add: try_st_def)

lemma ensure_carriers_frame:
  "buses (snd (ensure_carriers n names)) = buses n
   \<and> links (snd (ensure_carriers n names)) = links n
   \<and> stores (snd (ensure_carriers n names)) = stores n"
proof (induction names arbitrary: n)
  case Nil
  then show ?case by simp
next
  case (Cons name names)
  show ?case
  proof (cases "fst (ensure_carrier n name)")
    case (Inl e)
    then show ?thesis
      by (simp add: try_st_unfold ensure_carrier_frame)
  next
    case (Inr u)
    then show ?thesis
      using Cons.IH [of "snd (ensure_carrier n name)"]
      by (simp add: try_st_unfold ensure_carrier_frame)
  qed
qed

lemma ensure_carrier_hashable:
  "(\<And>d. name \<noteq> PDict d) \<Longrightarrow> name \<noteq> PNone \<Longrightarrow> fst (ensure_carrier n name) = Inr ()"
  by (cases name) (auto simp: ensure_carrier_def)

lemma ensure_carriers_strings:
  "fst (ensure_carriers n [PStr a, PStr b, PStr c]) = Inr ()"
  by (simp add: try_st_unfold ensure_carrier_hashable)

lemma country_candidates_subset:
  "set (country_candidates network country_code) \<subseteq> set (buses network)"
  by (auto simp: country_candidates_def)

lemma map_of_member: "(k, v) \<in> set xs \<Longrightarrow> \<exists>v'. map_of xs k = Some v'"
  by (metis map_of_eq_None_iff not_Some_eq fst_conv image_eqI)

lemma add_bus_frame:
  assumes "map_of (buses n) base_bus = Some base"
  shows "fst (add_bus n base_bus carrier) = Inr (base_bus @ ''-NH3'')"
    and "links (snd (add_bus n base_bus carrier)) = links n"
    and "stores (snd (add_bus n base_bus carrier)) = stores n"
  using assms by (simp_all add: add_bus_def Let_def)

lemma add_storage_links:
  "links (snd (add_storage n nh3_bus cfg carrier_name)) = links n"
  by (cases cfg) (simp_all add: add_storage_def Let_def)

lemma add_storage_empty_cfg:
  "fst (add_storage n nh3_bus (PDict d) carrier_name) = Inr ()"
  by (simp add: add_storage_def Let_def)

lemma add_ccgt_links_prefix:
  "\<exists>more. links (snd (add_ccgt n base_bus nh3_bus cfg carrier_name)) = links n @ more"
  by (cases cfg) (simp_all add: add_ccgt_def Let_def)

lemma add_ccgt_dict_cfg:
  "fst (add_ccgt n base_bus nh3_bus (PDict d) carrier_name) = Inr ()"
  by (simp add: add_ccgt_def Let_def)

lemma map_of_fresh_append:
  "k \<notin> set (map fst xs) \<Longrightarrow> map_of (xs @ (k, v) # ys) k = Some v"
  by (induction xs) auto

section \<open>Default parameters\<close>

lemma electrolyser_defaults:
  assumes "base_bus @ ''-NH3-electrolyser'' \<notin> set (map fst (links network))"
  shows "\<exists>l. add_electrolyser network base_bus nh3_bus (PDict cfg) carrier_name =
            (Inr (), network\<lparr>links := links network @ [(base_bus @ ''-NH3-electrolyser'', l)]\<rparr>)
         \<and> (map_of cfg ''efficiency'' = None \<longrightarrow> link_efficiency l = PFloat (Fin (6 / 10)))
         \<and> (map_of cfg ''capital_cost'' = None \<longrightarrow> link_capital_cost l = PFloat (Fin 750000))
         \<and> (map_of cfg ''marginal_cost'' = None \<longrightarrow> link_marginal_cost l = PFloat (Fin (5 / 10)))
         \<and> (map_of cfg ''lifetime'' = None \<longrightarrow> link_lifetime l = PInt 20)
         \<and> (map_of cfg ''p_nom_max'' = None \<longrightarrow> link_p_nom_max l = PFloat PosInf)"
  using assms
  by (intro exI [of _ "\<lparr>link_bus0 = base_bus, link_bus1 = nh3_bus, link_carrier = carrier_name,
        link_efficiency = cfg_get cfg ''efficiency'' (PFloat (Fin (6 / 10))),
        link_capital_cost = cfg_get cfg ''capital_cost'' (PFloat (Fin 750000)),
        link_marginal_cost = cfg_get cfg ''marginal_cost'' (PFloat (Fin (5 / 10))),
        link_lifetime = cfg_get cfg ''lifetime'' (PInt 20),
        link_p_nom_extendable = True,
        link_p_nom_max = cfg_get cfg ''p_nom_max'' (PFloat PosInf)\<rparr>"])
    (simp add: add_electrolyser_def cfg_get_def)

lemma storage_defaults:
  assumes "nh3_bus @ ''-store'' \<notin> set (map fst (stores network))"
  shows "\<exists>s. add_storage network nh3_bus (PDict cfg) carrier_name =
            (Inr (), network\<lparr>stores := stores network @ [(nh3_bus @ ''-store'', s)]\<rparr>)
         \<and> (map_of cfg ''e_cyclic'' = None \<longrightarrow> store_e_cyclic s = PBool True)
         \<and> (map_of cfg ''standing_loss'' = None \<longrightarrow> store_standing_loss s = PFloat (Fin 0))
         \<and> (map_of cfg ''capital_cost'' = None \<longrightarrow> store_capital_cost s = PFloat (Fin 150000))
         \<and> (map_of cfg ''e_nom_max'' = None \<longrightarrow> store_e_nom_max s = PFloat PosInf)"
  using assms
  by (intro exI [of _ "\<lparr>store_bus = nh3_bus, store_carrier = carrier_name,
        store_e_cyclic = cfg_get cfg ''e_cyclic'' (PBool True),
        store_standing_loss = cfg_get cfg ''standing_loss'' (PFloat (Fin 0)),
        store_capital_cost = cfg_get cfg ''capital_cost'' (PFloat (Fin 150000)),
        store_e_nom_extendable = True,
        store_e_nom_max = cfg_get cfg ''e_nom_max'' (PFloat PosInf)\<rparr>"])
    (simp add: add_storage_def cfg_get_def)

lemma ccgt_defaults:
  assumes "base_bus @ ''-NH3-CCGT'' \<notin> set (map fst (links network))"
  shows "\<exists>l. add_ccgt network base_bus nh3_bus (PDict cfg) carrier_name =
            (Inr (), network\<lparr>links := links network @ [(base_bus @ ''-NH3-CCGT'', l)]\<rparr>)
         \<and> (map_of cfg ''efficiency'' = None \<longrightarrow> link_efficiency l = PFloat (Fin (55 / 100)))
         \<and> (map_of cfg ''capital_cost'' = None \<longrightarrow> link_capital_cost l = PFloat (Fin 900000))
         \<and> (map_of cfg ''marginal_cost'' = None \<longrightarrow> link_marginal_cost l = PFloat (Fin (25 / 10)))
         \<and> (map_of cfg ''lifetime'' = None \<longrightarrow> link_lifetime l = PInt 25)
         \<and> (map_of cfg ''p_nom_max'' = None \<longrightarrow> link_p_nom_max l = PFloat PosInf)"
  using assms
  by (intro exI [of _ "\<lparr>link_bus0 = nh3_bus, link_bus1 = base_bus, link_carrier = carrier_name,
        link_efficiency = cfg_get cfg ''efficiency'' (PFloat (Fin (55 / 100))),
        link_capital_cost = cfg_get cfg ''capital_cost'' (PFloat (Fin 900000)),
        link_marginal_cost = cfg_get cfg ''marginal_cost'' (PFloat (Fin (25 / 10))),
        link_lifetime = cfg_get cfg ''lifetime'' (PInt 25),
        link_p_nom_extendable = True,
        link_p_nom_max = cfg_get cfg ''p_nom_max'' (PFloat PosInf)\<rparr>"])
    (simp add: add_ccgt_def cfg_get_def)

lemma default_run:
  assumes cands: "country_candidates network (PStr ''ES'') = (base_bus, b) # rest"
    and fresh: "base_bus @ ''-NH3-electrolyser'' \<notin> set (map fst (links network))"
  shows "\<exists>l. fst (add_green_ammonia lib network snapshots enabled_config kwargs) = Inr ()
         \<and> map_of (links (snd (add_green_ammonia lib network snapshots enabled_config kwargs)))
              (base_bus @ ''-NH3-electrolyser'') = Some l
         \<and> link_efficiency l = PFloat (Fin (6 / 10))
         \<and> link_capital_cost l = PFloat (Fin 750000)"
proof -
  define n1 where "n1 = snd (ensure_carriers network [PStr ''NH3'', PStr ''NH3-electrolyser'', PStr ''NH3-power''])"
  have c1: "ensure_carriers network [PStr ''NH3'', PStr ''NH3-electrolyser'', PStr ''NH3-power''] = (Inr (), n1)"
    using ensure_carriers_strings [of network "''NH3''" "''NH3-electrolyser''" "''NH3-power''"]
    unfolding n1_def by (metis prod.collapse)
  have f1: "buses n1 = buses network" "links n1 = links network"
    unfolding n1_def using ensure_carriers_frame by blast+
  have "(base_bus, b) \<in> set (buses network)"
    using cands country_candidates_subset [of network "PStr ''ES''"] by auto
  then obtain base where base: "map_of (buses n1) base_bus = Some base"
    using map_of_member f1(1) by metis
  define n2 where "n2 = snd (add_bus n1 base_bus (PStr ''NH3''))"
  have c2: "add_bus n1 base_bus (PStr ''NH3'') = (Inr (base_bus @ ''-NH3''), n2)"
    using add_bus_frame(1) [OF base] unfolding n2_def by (metis prod.collapse)
  have f2: "links n2 = links network"
    unfolding n2_def using add_bus_frame(2) [OF base] f1(2) by simp
  from fresh f2 have "base_bus @ ''-NH3-electrolyser'' \<notin> set (map fst (links n2))"
    by simp
  from electrolyser_defaults [OF this, of "base_bus @ ''-NH3''" "[]" "PStr ''NH3-electrolyser''"]
  obtain l where c3: "add_electrolyser n2 base_bus (base_bus @ ''-NH3'') (PDict []) (PStr ''NH3-electrolyser'')
        = (Inr (), n2\<lparr>links := links n2 @ [(base_bus @ ''-NH3-electrolyser'', l)]\<rparr>)"
    and l: "link_efficiency l = PFloat (Fin (6 / 10))" "link_capital_cost l = PFloat (Fin 750000)"
    by auto
  define n3 where "n3 = n2\<lparr>links := links n2 @ [(base_bus @ ''-NH3-electrolyser'', l)]\<rparr>"
  define n4 where "n4 = snd (add_storage n3 (base_bus @ ''-NH3'') (PDict []) (PStr ''NH3''))"
  have c4: "add_storage n3 (base_bus @ ''-NH3'') (PDict []) (PStr ''NH3'') = (Inr (), n4)"
    using add_storage_empty_cfg unfolding n4_def by (metis prod.collapse)
  have f4: "links n4 = links network @ [(base_bus @ ''-NH3-electrolyser'', l)]"
    unfolding n4_def by (simp add: add_storage_links n3_def f2)
  define r where "r = add_ccgt n4 base_bus (base_bus @ ''-NH3'') (PDict []) (PStr ''NH3-power'')"
  have c5: "fst r = Inr ()"
    unfolding r_def by (rule add_ccgt_dict_cfg)
  obtain more where f5: "links (snd r) = links network @ (base_bus @ ''-NH3-electrolyser'', l) # more"
    using add_ccgt_links_prefix [of n4 base_bus "base_bus @ ''-NH3''" "PDict []" "PStr ''NH3-power''"]
    unfolding r_def [symmetric] f4 by auto
  have cb: "closest_bus lib network (PStr ''ES'') PNone PNone PNone = Inr base_bus"
    using cands by (simp add: closest_bus_def narrow_def nearest_def first_label_def)
  have run: "add_green_ammonia lib network snapshots enabled_config kwargs = r"
    unfolding add_green_ammonia_def enabled_config_def green_ammonia_config_def
    by (simp add: get_cfg_def cfg_get_def cb c1 c2 c3 c4 n3_def [symmetric] r_def
      del: ensure_carriers.simps)
  have "map_of (links (snd r)) (base_bus @ ''-NH3-electrolyser'') = Some l"
    unfolding f5 using fresh by (rule map_of_fresh_append)
  with c5 l show ?thesis
    unfolding run by simp
qed

text \<open>
  Claim C6: a techno-economic key that is absent from its configuration block takes the
  default of the source: electrolyser efficiency 0.6, capital cost 7.5e5, marginal cost
  0.5, lifetime 20, p_nom_max infinity; store e_cyclic true, standing loss 0.0, capital
  cost 1.5e5, e_nom_max infinity; CCGT efficiency 0.55, capital cost 9e5, marginal cost
  2.5, lifetime 25, p_nom_max infinity. With a configuration that holds nothing but
  \<^verbatim>\<open>enable: true\<close>, on a network with a bus in ES, the call succeeds and the
  electrolyser link it creates has efficiency 0.6 and capital cost 7.5e5.
\<close>

theorem default_parameters:
  "(base_bus @ ''-NH3-electrolyser'' \<notin> set (map fst (links network)) \<longrightarrow>
      (\<exists>l. add_electrolyser network base_bus nh3_bus (PDict cfg) carrier_name =
            (Inr (), network\<lparr>links := links network @ [(base_bus @ ''-NH3-electrolyser'', l)]\<rparr>)
         \<and> (map_of cfg ''efficiency'' = None \<longrightarrow> link_efficiency l = PFloat (Fin (6 / 10)))
         \<and> (map_of cfg ''capital_cost'' = None \<longrightarrow> link_capital_cost l = PFloat (Fin 750000))
         \<and> (map_of cfg ''marginal_cost'' = None \<longrightarrow> link_marginal_cost l = PFloat (Fin (5 / 10)))
         \<and> (map_of cfg ''lifetime'' = None \<longrightarrow> link_lifetime l = PInt 20)
         \<and> (map_of cfg ''p_nom_max'' = None \<longrightarrow> link_p_nom_max l = PFloat PosInf)))
   \<and> (nh3_bus @ ''-store'' \<notin> set (map fst (stores network)) \<longrightarrow>
      (\<exists>s. add_storage network nh3_bus (PDict cfg) carrier_name =
            (Inr (), network\<lparr>stores := stores network @ [(nh3_bus @ ''-store'', s)]\<rparr>)
         \<and> (map_of cfg ''e_cyclic'' = None \<longrightarrow> store_e_cyclic s = PBool True)
         \<and> (map_of cfg ''standing_loss'' = None \<longrightarrow> store_standing_loss s = PFloat (Fin 0))
         \<and> (map_of cfg ''capital_cost'' = None \<longrightarrow> store_capital_cost s = PFloat (Fin 150000))
         \<and> (map_of cfg ''e_nom_max'' = None \<longrightarrow> store_e_nom_max s = PFloat PosInf)))
   \<and> (base_bus @ ''-NH3-CCGT'' \<notin> set (map fst (links network)) \<longrightarrow>
      (\<exists>l. add_ccgt network base_bus nh3_bus (PDict cfg) carrier_name =
            (Inr (), network\<lparr>links := links network @ [(base_bus @ ''-NH3-CCGT'', l)]\<rparr>)
         \<and> (map_of cfg ''efficiency'' = None \<longrightarrow> link_efficiency l = PFloat (Fin (55 / 100)))
         \<and> (map_of cfg ''capital_cost'' = None \<longrightarrow> link_capital_cost l = PFloat (Fin 900000))
         \<and> (map_of cfg ''marginal_cost'' = None \<longrightarrow> link_marginal_cost l = PFloat (Fin (25 / 10)))
         \<and> (map_of cfg ''lifetime'' = None \<longrightarrow> link_lifetime l = PInt 25)
         \<and> (map_of cfg ''p_nom_max'' = None \<longrightarrow> link_p_nom_max l = PFloat PosInf)))
   \<and> (country_candidates network (PStr ''ES'') = (base_bus, b) # rest \<longrightarrow>
       base_bus @ ''-NH3-electrolyser'' \<notin> set (map fst (links network)) \<longrightarrow>
      (\<exists>l. fst (add_green_ammonia lib network snapshots enabled_config kwargs) = Inr ()
         \<and> map_of (links (snd (add_green_ammonia lib network snapshots enabled_config kwargs)))
              (base_bus @ ''-NH3-electrolyser'') = Some l
         \<and> link_efficiency l = PFloat (Fin (6 / 10))
         \<and> link_capital_cost l = PFloat (Fin 750000)))"
proof (intro conjI impI)
  assume "base_bus @ ''-NH3-electrolyser'' \<notin> set (map fst (links network))"
  then show "\<exists>l. add_electrolyser network base_bus nh3_bus (PDict cfg) carrier_name =
            (Inr (), network\<lparr>links := links network @ [(base_bus @ ''-NH3-electrolyser'', l)]\<rparr>)
         \<and> (map_of cfg ''efficiency'' = None \<longrightarrow> link_efficiency l = PFloat (Fin (6 / 10)))
         \<and> (map_of cfg ''capital_cost'' = None \<longrightarrow> link_capital_cost l = PFloat (Fin 750000))
         \<and> (map_of cfg ''marginal_cost'' = None \<longrightarrow> link_marginal_cost l = PFloat (Fin (5 / 10)))
         \<and> (map_of cfg ''lifetime'' = None \<longrightarrow> link_lifetime l = PInt 20)
         \<and> (map_of cfg ''p_nom_max'' = None \<longrightarrow> link_p_nom_max l = PFloat PosInf)"
    by (rule electrolyser_defaults)
next
  assume "nh3_bus @ ''-store'' \<notin> set (map fst (stores network))"
  then show "\<exists>s. add_storage network nh3_bus (PDict cfg) carrier_name =
            (Inr (), network\<lparr>stores := stores network @ [(nh3_bus @ ''-store'', s)]\<rparr>)
         \<and> (map_of cfg ''e_cyclic'' = None \<longrightarrow> store_e_cyclic s = PBool True)
         \<and> (map_of cfg ''standing_loss'' = None \<longrightarrow> store_standing_loss s = PFloat (Fin 0))
         \<and> (map_of cfg ''capital_cost'' = None \<longrightarrow> store_capital_cost s = PFloat (Fin 150000))
         \<and> (map_of cfg ''e_nom_max'' = None \<longrightarrow> store_e_nom_max s = PFloat PosInf)"
    by (rule storage_defaults)
next
  assume "base_bus @ ''-NH3-CCGT'' \<notin> set (map fst (links network))"
  then show "\<exists>l. add_ccgt network base_bus nh3_bus (PDict cfg) carrier_name =
            (Inr (), network\<lparr>links := links network @ [(base_bus @ ''-NH3-CCGT'', l)]\<rparr>)
         \<and> (map_of cfg ''efficiency'' = None \<longrightarrow> link_efficiency l = PFloat (Fin (55 / 100)))
         \<and> (map_of cfg ''capital_cost'' = None \<longrightarrow> link_capital_cost l = PFloat (Fin 900000))
         \<and> (map_of cfg ''marginal_cost'' = None \<longrightarrow> link_marginal_cost l = PFloat (Fin (25 / 10)))
         \<and> (map_of cfg ''lifetime'' = None \<longrightarrow> link_lifetime l = PInt 25)
         \<and> (map_of cfg ''p_nom_max'' = None \<longrightarrow> link_p_nom_max l = PFloat PosInf)"
    by (rule ccgt_defaults)
next
  assume "country_candidates network (PStr ''ES'') = (base_bus, b) # rest"
    and "base_bus @ ''-NH3-electrolyser'' \<notin> set (map fst (links network))"
  then show "\<exists>l. fst (add_green_ammonia lib network snapshots enabled_config kwargs) = Inr ()
         \<and> map_of (links (snd (add_green_ammonia lib network snapshots enabled_config kwargs)))
              (base_bus @ ''-NH3-electrolyser'') = Some l
         \<and> link_efficiency l = PFloat (Fin (6 / 10))
         \<and> link_capital_cost l = PFloat (Fin 750000)"
    by (rule default_run)
qed

theorem default_parameters_witness:
  "''ES0'' @ ''-NH3-electrolyser'' \<notin> set (map fst (links single_bus_network))
   \<and> ''ES0-NH3'' @ ''-store'' \<notin> set (map fst (stores single_bus_network))
   \<and> ''ES0'' @ ''-NH3-CCGT'' \<notin> set (map fst (links single_bus_network))
   \<and> map_of ([] :: (string \<times> pyval) list) ''efficiency'' = None
   \<and> country_candidates single_bus_network (PStr ''ES'') = [(''ES0'', country_bus ''ES'' 0 0)]
   \<and> fst (add_green_ammonia literal_lib single_bus_network () enabled_config []) = Inr ()
   \<and> map (\<lambda>row. (fst row, link_efficiency (snd row), link_capital_cost (snd row),
              link_marginal_cost (snd row), link_lifetime (snd row), link_p_nom_max (snd row)))
        (links (snd (add_green_ammonia literal_lib single_bus_network () enabled_config [])))
      = [(''ES0-NH3-electrolyser'', PFloat (Fin (6 / 10)), PFloat (Fin 750000),
          PFloat (Fin (5 / 10)), PInt 20, PFloat PosInf),
         (''ES0-NH3-CCGT'', PFloat (Fin (55 / 100)), PFloat (Fin 900000),
          PFloat (Fin (25 / 10)), PInt 25, PFloat PosInf)]
   \<and> map (\<lambda>row. (fst row, store_e_cyclic (snd row), store_standing_loss (snd row),
              store_capital_cost (snd row), store_e_nom_max (snd row)))
        (stores (snd (add_green_ammonia literal_lib single_bus_network () enabled_config [])))
      = [(''ES0-NH3-store'', PBool True, PFloat (Fin 0), PFloat (Fin 150000), PFloat PosInf)]"
  using default_parameters [where base_bus = "''ES0''" and nh3_bus = "''ES0-NH3''"
      and network = single_bus_network and cfg = "[]" and carrier_name = "PStr ''NH3''"
      and b = "country_bus ''ES'' 0 0" and rest = "[]" and lib = literal_lib
      and snapshots = "()" and kwargs = "[]"]
  unfolding add_green_ammonia_def
  by (simp add: fixture_defs run_defs cong: try_pure_weak_cong try_st_weak_cong)

section \<open>The injected chain\<close>

lemma try_pure_success:
  assumes "try_pure m n k = (Inr r, n')"
  obtains v where "m = Inr v" and "k v = (Inr r, n')"
  using assms by (cases m) auto

lemma try_st_success:
  assumes "try_st m k = (Inr r, n')"
  obtains v n1 where "m = (Inr v, n1)" and "k v n1 = (Inr r, n')"
  using assms by (cases m; cases "fst m") (auto simp: try_st_def)

lemma first_label_member: "first_label candidates = Inr l \<Longrightarrow> l \<in> set (map fst candidates)"
  by (cases candidates) (auto simp: first_label_def)

lemma argmin_in_range: "argmin ds = Inr i \<Longrightarrow> i < length ds"
  using argmin_first_minimum [of ds] by (cases ds) (auto simp: argmin_def)

lemma nearest_member:
  assumes "nearest lib candidates latitude longitude = Inr l"
  shows "l \<in> set (map fst candidates)"
proof (cases "latitude = PNone \<or> longitude = PNone")
  case True
  with assms show ?thesis
    by (auto simp: nearest_def dest: first_label_member)
next
  case False
  with assms obtain lat lon i where i: "argmin (distances candidates lat lon) = Inr i"
    "l = fst (candidates ! i)"
    by (auto simp: nearest_def split: sum.splits)
  from argmin_in_range [OF i(1)] have "i < length candidates"
    by (simp add: distances_def)
  with i(2) show ?thesis by simp
qed

lemma narrow_subset:
  "narrow lib candidates bus_substring = Inr c \<Longrightarrow> set c \<subseteq> set candidates"
  by (auto simp: narrow_def Let_def split: if_splits pyval.splits option.splits)

lemma closest_bus_member:
  assumes "closest_bus lib network country_code latitude longitude bus_substring = Inr l"
  shows "l \<in> set (map fst (buses network))"
proof -
  from assms obtain c where c: "narrow lib (country_candidates network country_code) bus_substring = Inr c"
    and n: "nearest lib c latitude longitude = Inr l"
    by (auto simp: closest_bus_def Let_def split: if_splits sum.splits)
  from nearest_member [OF n] have "l \<in> set (map fst c)" .
  with narrow_subset [OF c] country_candidates_subset [of network country_code]
  show ?thesis by auto
qed

lemma add_bus_fresh_success:
  assumes "base_bus @ ''-NH3'' \<notin> set (map fst (buses n))"
    and "add_bus n base_bus carrier = (Inr nh3, n')"
  shows "nh3 = base_bus @ ''-NH3'' \<and> (\<exists>row. n' = n\<lparr>buses := buses n @ [(base_bus @ ''-NH3'', row)]\<rparr>)"
  using assms by (auto simp: add_bus_def Let_def split: option.splits)

lemma add_electrolyser_fresh_success:
  assumes "base_bus @ ''-NH3-electrolyser'' \<notin> set (map fst (links n))"
    and "add_electrolyser n base_bus nh3_bus cfg carrier_name = (Inr (), n')"
  shows "\<exists>el. n' = n\<lparr>links := links n @ [(base_bus @ ''-NH3-electrolyser'', el)]\<rparr>
           \<and> link_bus0 el = base_bus \<and> link_bus1 el = nh3_bus"
  using assms by (cases cfg) (auto simp: add_electrolyser_def Let_def)

lemma add_storage_fresh_success:
  assumes "nh3_bus @ ''-store'' \<notin> set (map fst (stores n))"
    and "add_storage n nh3_bus cfg carrier_name = (Inr (), n')"
  shows "\<exists>st. n' = n\<lparr>stores := stores n @ [(nh3_bus @ ''-store'', st)]\<rparr> \<and> store_bus st = nh3_bus"
  using assms by (cases cfg) (auto simp: add_storage_def Let_def)

lemma add_ccgt_fresh_success:
  assumes "base_bus @ ''-NH3-CCGT'' \<notin> set (map fst (links n))"
    and "add_ccgt n base_bus nh3_bus cfg carrier_name = (Inr (), n')"
  shows "\<exists>gen. n' = n\<lparr>links := links n @ [(base_bus @ ''-NH3-CCGT'', gen)]\<rparr>
           \<and> link_bus0 gen = nh3_bus \<and> link_bus1 gen = base_bus"
  using assms by (cases cfg) (auto simp: add_ccgt_def Let_def)

lemma fresh_run_shape:
  assumes cfg: "get_cfg config = Inr (PDict ga)"
    and on: "truthy (cfg_get ga ''enable'' (PBool False))"
    and loc: "cfg_get ga ''location'' (PDict []) = PDict location"
    and base: "closest_bus lib network (cfg_get ga ''country_code'' (PStr ''ES''))
        (cfg_get location ''latitude'' PNone) (cfg_get location ''longitude'' PNone)
        (cfg_get location ''bus_substring'' PNone) = Inr base_bus"
    and run: "add_green_ammonia lib network snapshots config kwargs = (Inr (), network')"
    and fresh_bus: "base_bus @ ''-NH3'' \<notin> set (map fst (buses network))"
    and fresh_el: "base_bus @ ''-NH3-electrolyser'' \<notin> set (map fst (links network))"
    and fresh_st: "base_bus @ ''-NH3-store'' \<notin> set (map fst (stores network))"
    and fresh_gen: "base_bus @ ''-NH3-CCGT'' \<notin> set (map fst (links network))"
  shows "\<exists>row el st gen.
      buses network' = buses network @ [(base_bus @ ''-NH3'', row)]
    \<and> links network' = links network @
         [(base_bus @ ''-NH3-electrolyser'', el), (base_bus @ ''-NH3-CCGT'', gen)]
    \<and> stores network' = stores network @ [(base_bus @ ''-NH3-store'', st)]
    \<and> link_bus0 el = base_bus \<and> link_bus1 el = base_bus @ ''-NH3''
    \<and> link_bus0 gen = base_bus @ ''-NH3'' \<and> link_bus1 gen = base_bus
    \<and> store_bus st = base_bus @ ''-NH3''"
proof -
  from run cfg on loc base
  have r0: "try_pure (py_get (cfg_get ga ''carriers'' (PDict [])) ''ammonia'' (PStr ''NH3'')) network
       (\<lambda>carrier_store.
     try_pure (py_get (cfg_get ga ''carriers'' (PDict [])) ''to_store'' (PStr ''NH3-electrolyser'')) network
       (\<lambda>carrier_electrolyser.
     try_pure (py_get (cfg_get ga ''carriers'' (PDict [])) ''to_power'' (PStr ''NH3-power'')) network
       (\<lambda>carrier_ccgt.
     try_st (ensure_carriers network [carrier_store, carrier_electrolyser, carrier_ccgt])
       (\<lambda>_ n1.
     try_st (add_bus n1 base_bus carrier_store) (\<lambda>nh3_bus n2.
     try_pure (py_get (PDict ga) ''electrolyser'' (PDict [])) n2 (\<lambda>electrolyser_cfg.
     try_st (add_electrolyser n2 base_bus nh3_bus electrolyser_cfg carrier_electrolyser)
       (\<lambda>_ n3.
     try_pure (py_get (PDict ga) ''storage'' (PDict [])) n3 (\<lambda>storage_cfg.
     try_st (add_storage n3 nh3_bus storage_cfg carrier_store) (\<lambda>_ n4.
     try_pure (py_get (PDict ga) ''ccgt'' (PDict [])) n4 (\<lambda>ccgt_cfg.
     add_ccgt n4 base_bus nh3_bus ccgt_cfg carrier_ccgt)))))))))) = (Inr (), network')"
    unfolding add_green_ammonia_def
    by (simp del: ensure_carriers.simps cong: try_pure_weak_cong try_st_weak_cong)
  from r0 obtain cs where r1: "try_pure (py_get (cfg_get ga ''carriers'' (PDict [])) ''to_store'' (PStr ''NH3-electrolyser'')) network
       (\<lambda>carrier_electrolyser.
     try_pure (py_get (cfg_get ga ''carriers'' (PDict [])) ''to_power'' (PStr ''NH3-power'')) network
       (\<lambda>carrier_ccgt.
     try_st (ensure_carriers network [cs, carrier_electrolyser, carrier_ccgt])
       (\<lambda>_ n1.
     try_st (add_bus n1 base_bus cs) (\<lambda>nh3_bus n2.
     try_pure (py_get (PDict ga) ''electrolyser'' (PDict [])) n2 (\<lambda>electrolyser_cfg.
     try_st (add_electrolyser n2 base_bus nh3_bus electrolyser_cfg carrier_electrolyser)
       (\<lambda>_ n3.
     try_pure (py_get (PDict ga) ''storage'' (PDict [])) n3 (\<lambda>storage_cfg.
     try_st (add_storage n3 nh3_bus storage_cfg cs) (\<lambda>_ n4.
     try_pure (py_get (PDict ga) ''ccgt'' (PDict [])) n4 (\<lambda>ccgt_cfg.
     add_ccgt n4 base_bus nh3_bus ccgt_cfg carrier_ccgt))))))))) = (Inr (), network')"
    by (rule try_pure_success)
  from r1 obtain ce where r2: "try_pure (py_get (cfg_get ga ''carriers'' (PDict [])) ''to_power'' (PStr ''NH3-power'')) network
       (\<lambda>carrier_ccgt.
     try_st (ensure_carriers network [cs, ce, carrier_ccgt])
       (\<lambda>_ n1.
     try_st (add_bus n1 base_bus cs) (\<lambda>nh3_bus n2.
     try_pure (py_get (PDict ga) ''electrolyser'' (PDict [])) n2 (\<lambda>electrolyser_cfg.
     try_st (add_electrolyser n2 base_bus nh3_bus electrolyser_cfg ce)
       (\<lambda>_ n3.
     try_pure (py_get (PDict ga) ''storage'' (PDict [])) n3 (\<lambda>storage_cfg.
     try_st (add_storage n3 nh3_bus storage_cfg cs) (\<lambda>_ n4.
     try_pure (py_get (PDict ga) ''ccgt'' (PDict [])) n4 (\<lambda>ccgt_cfg.
     add_ccgt n4 base_bus nh3_bus ccgt_cfg carrier_ccgt)))))))) = (Inr (), network')"
    by (rule try_pure_success)
  from r2 obtain cc where r3: "try_st (ensure_carriers network [cs, ce, cc])
       (\<lambda>_ n1.
     try_st (add_bus n1 base_bus cs) (\<lambda>nh3_bus n2.
     try_pure (py_get (PDict ga) ''electrolyser'' (PDict [])) n2 (\<lambda>electrolyser_cfg.
     try_st (add_electrolyser n2 base_bus nh3_bus electrolyser_cfg ce)
       (\<lambda>_ n3.
     try_pure (py_get (PDict ga) ''storage'' (PDict [])) n3 (\<lambda>storage_cfg.
     try_st (add_storage n3 nh3_bus storage_cfg cs) (\<lambda>_ n4.
     try_pure (py_get (PDict ga) ''ccgt'' (PDict [])) n4 (\<lambda>ccgt_cfg.
     add_ccgt n4 base_bus nh3_bus ccgt_cfg cc))))))) = (Inr (), network')"
    by (rule try_pure_success)
  from r3 obtain u1 n1 where s1: "ensure_carriers network [cs, ce, cc] = (Inr u1, n1)"
    and r4: "try_st (add_bus n1 base_bus cs) (\<lambda>nh3_bus n2.
     try_pure (py_get (PDict ga) ''electrolyser'' (PDict [])) n2 (\<lambda>electrolyser_cfg.
     try_st (add_electrolyser n2 base_bus nh3_bus electrolyser_cfg ce)
       (\<lambda>_ n3.
     try_pure (py_get (PDict ga) ''storage'' (PDict [])) n3 (\<lambda>storage_cfg.
     try_st (add_storage n3 nh3_bus storage_cfg cs) (\<lambda>_ n4.
     try_pure (py_get (PDict ga) ''ccgt'' (PDict [])) n4 (\<lambda>ccgt_cfg.
     add_ccgt n4 base_bus nh3_bus ccgt_cfg cc)))))) = (Inr (), network')"
    by (rule try_st_success)
  have f1: "buses n1 = buses network" "links n1 = links network" "stores n1 = stores network"
    using ensure_carriers_frame [of network "[cs, ce, cc]"] unfolding s1 by simp_all
  from r4 obtain nh3 n2 where s2: "add_bus n1 base_bus cs = (Inr nh3, n2)"
    and r5: "try_st (add_electrolyser n2 base_bus nh3 (cfg_get ga ''electrolyser'' (PDict [])) ce)
       (\<lambda>_ n3.
     try_pure (py_get (PDict ga) ''storage'' (PDict [])) n3 (\<lambda>storage_cfg.
     try_st (add_storage n3 nh3 storage_cfg cs) (\<lambda>_ n4.
     try_pure (py_get (PDict ga) ''ccgt'' (PDict [])) n4 (\<lambda>ccgt_cfg.
     add_ccgt n4 base_bus nh3 ccgt_cfg cc)))) = (Inr (), network')"
    by (rule try_st_success) simp
  from add_bus_fresh_success [OF _ s2] fresh_bus f1(1)
  obtain row where nh3: "nh3 = base_bus @ ''-NH3''"
    and n2: "n2 = n1\<lparr>buses := buses n1 @ [(base_bus @ ''-NH3'', row)]\<rparr>"
    by auto
  from r5 obtain n3 where s3: "add_electrolyser n2 base_bus nh3 (cfg_get ga ''electrolyser'' (PDict [])) ce = (Inr (), n3)"
    and r6: "try_st (add_storage n3 nh3 (cfg_get ga ''storage'' (PDict [])) cs) (\<lambda>_ n4.
     try_pure (py_get (PDict ga) ''ccgt'' (PDict [])) n4 (\<lambda>ccgt_cfg.
     add_ccgt n4 base_bus nh3 ccgt_cfg cc)) = (Inr (), network')"
    by (rule try_st_success) simp
  have "base_bus @ ''-NH3-electrolyser'' \<notin> set (map fst (links n2))"
    using fresh_el f1(2) n2 by simp
  from add_electrolyser_fresh_success [OF this s3]
  obtain el where n3: "n3 = n2\<lparr>links := links n2 @ [(base_bus @ ''-NH3-electrolyser'', el)]\<rparr>"
    and el: "link_bus0 el = base_bus" "link_bus1 el = nh3"
    by auto
  from r6 obtain n4 where s4: "add_storage n3 nh3 (cfg_get ga ''storage'' (PDict [])) cs = (Inr (), n4)"
    and r7: "add_ccgt n4 base_bus nh3 (cfg_get ga ''ccgt'' (PDict [])) cc = (Inr (), network')"
    by (rule try_st_success) simp
  have "nh3 @ ''-store'' \<notin> set (map fst (stores n3))"
    using fresh_st f1(3) n2 n3 nh3 by simp
  from add_storage_fresh_success [OF this s4]
  obtain st where n4: "n4 = n3\<lparr>stores := stores n3 @ [(nh3 @ ''-store'', st)]\<rparr>"
    and st: "store_bus st = nh3"
    by auto
  have "base_bus @ ''-NH3-CCGT'' \<notin> set (map fst (links n4))"
    using fresh_gen f1(2) n2 n3 n4 by simp
  from add_ccgt_fresh_success [OF this r7]
  obtain gen where n5: "network' = n4\<lparr>links := links n4 @ [(base_bus @ ''-NH3-CCGT'', gen)]\<rparr>"
    and gen: "link_bus0 gen = nh3" "link_bus1 gen = base_bus"
    by auto
  have "buses network' = buses network @ [(base_bus @ ''-NH3'', row)]"
    using n5 n4 n3 n2 f1 by simp
  moreover have "links network' = links network @
         [(base_bus @ ''-NH3-electrolyser'', el), (base_bus @ ''-NH3-CCGT'', gen)]"
    using n5 n4 n3 n2 f1 by simp
  moreover have "stores network' = stores network @ [(base_bus @ ''-NH3-store'', st)]"
    using n5 n4 n3 n2 f1 nh3 by simp
  ultimately show ?thesis
    using el gen st nh3 by blast
qed

lemma endpoints_exist_unattached:
  assumes "endpoints_exist network" and "l \<notin> set (map fst (buses network))"
  shows "list_all (\<lambda>row. link_bus0 (snd row) \<noteq> l \<and> link_bus1 (snd row) \<noteq> l) (links network)
       \<and> list_all (\<lambda>row. store_bus (snd row) \<noteq> l) (stores network)"
  using assms by (auto simp: endpoints_exist_def list_all_iff)

text \<open>
  Claim C7: after a successful enabled call on a network that held none of the four
  injected rows (the bus, the two links and the store derived from the base bus) and
  nothing attached to the label of the new bus, the new NH3 bus is in the bus table;
  exactly one link ends at it, the electrolyser, which starts at the base bus; exactly
  one link starts at it, the CCGT link, which ends at the base bus; and exactly one
  store is attached to it. In a well-formed network nothing is attached to a label that
  is not a bus, so there the absence of the bus is enough.
\<close>

theorem injected_chain_consistent:
  assumes "get_cfg config = Inr (PDict ga)"
    and "truthy (cfg_get ga ''enable'' (PBool False))"
    and "cfg_get ga ''location'' (PDict []) = PDict location"
    and "closest_bus lib network (cfg_get ga ''country_code'' (PStr ''ES''))
        (cfg_get location ''latitude'' PNone) (cfg_get location ''longitude'' PNone)
        (cfg_get location ''bus_substring'' PNone) = Inr base_bus"
    and "add_green_ammonia lib network snapshots config kwargs = (Inr (), network')"
    and "base_bus @ ''-NH3'' \<notin> set (map fst (buses network))"
    and "base_bus @ ''-NH3-electrolyser'' \<notin> set (map fst (links network))"
    and "base_bus @ ''-NH3-store'' \<notin> set (map fst (stores network))"
    and "base_bus @ ''-NH3-CCGT'' \<notin> set (map fst (links network))"
    and "list_all (\<lambda>row. link_bus0 (snd row) \<noteq> base_bus @ ''-NH3''
                      \<and> link_bus1 (snd row) \<noteq> base_bus @ ''-NH3'') (links network)"
    and "list_all (\<lambda>row. store_bus (snd row) \<noteq> base_bus @ ''-NH3'') (stores network)"
  shows "\<exists>el gen st.
      base_bus @ ''-NH3'' \<in> set (map fst (buses network'))
    \<and> filter (\<lambda>row. link_bus1 (snd row) = base_bus @ ''-NH3'') (links network')
          = [(base_bus @ ''-NH3-electrolyser'', el)]
    \<and> link_bus0 el = base_bus
    \<and> filter (\<lambda>row. link_bus0 (snd row) = base_bus @ ''-NH3'') (links network')
          = [(base_bus @ ''-NH3-CCGT'', gen)]
    \<and> link_bus1 gen = base_bus
    \<and> filter (\<lambda>row. store_bus (snd row) = base_bus @ ''-NH3'') (stores network')
          = [(base_bus @ ''-NH3-store'', st)]"
proof -
  from fresh_run_shape [OF assms(1-9)]
  obtain row el st gen where
    b: "buses network' = buses network @ [(base_bus @ ''-NH3'', row)]"
    and l: "links network' = links network @
         [(base_bus @ ''-NH3-electrolyser'', el), (base_bus @ ''-NH3-CCGT'', gen)]"
    and s: "stores network' = stores network @ [(base_bus @ ''-NH3-store'', st)]"
    and el: "link_bus0 el = base_bus" "link_bus1 el = base_bus @ ''-NH3''"
    and gen: "link_bus0 gen = base_bus @ ''-NH3''" "link_bus1 gen = base_bus"
    and st: "store_bus st = base_bus @ ''-NH3''"
    by blast
  have in1: "filter (\<lambda>row. link_bus1 (snd row) = base_bus @ ''-NH3'') (links network) = []"
    using assms(10) by (auto simp: list_all_iff filter_empty_conv)
  have out1: "filter (\<lambda>row. link_bus0 (snd row) = base_bus @ ''-NH3'') (links network) = []"
    using assms(10) by (auto simp: list_all_iff filter_empty_conv)
  have st1: "filter (\<lambda>row. store_bus (snd row) = base_bus @ ''-NH3'') (stores network) = []"
    using assms(11) by (auto simp: list_all_iff filter_empty_conv)
  have "base_bus @ ''-NH3'' \<in> set (map fst (buses network'))"
    by (simp add: b)
  moreover have "filter (\<lambda>row. link_bus1 (snd row) = base_bus @ ''-NH3'') (links network')
          = [(base_bus @ ''-NH3-electrolyser'', el)]"
    by (simp add: l in1 el gen)
  moreover have "filter (\<lambda>row. link_bus0 (snd row) = base_bus @ ''-NH3'') (links network')
          = [(base_bus @ ''-NH3-CCGT'', gen)]"
    by (simp add: l out1 el gen)
  moreover have "filter (\<lambda>row. store_bus (snd row) = base_bus @ ''-NH3'') (stores network')
          = [(base_bus @ ''-NH3-store'', st)]"
    by (simp add: s st1 st)
  ultimately show ?thesis
    using el(1) gen(2) by blast
qed

theorem injected_chain_consistent_witness:
  "get_cfg enabled_config = Inr (PDict [(''enable'', PBool True)])
   \<and> truthy (cfg_get [(''enable'', PBool True)] ''enable'' (PBool False))
   \<and> cfg_get [(''enable'', PBool True)] ''location'' (PDict []) = PDict []
   \<and> closest_bus literal_lib linked_network (PStr ''ES'') PNone PNone PNone = Inr ''ES0''
   \<and> fst (add_green_ammonia literal_lib linked_network () enabled_config []) = Inr ()
   \<and> map fst (buses linked_network) = [''ES0'', ''ES1'']
   \<and> map (\<lambda>row. (fst row, link_bus0 (snd row), link_bus1 (snd row))) (links linked_network)
        = [(''L01'', ''ES0'', ''ES1'')]
   \<and> map (\<lambda>row. (fst row, store_bus (snd row))) (stores linked_network) = [(''S0'', ''ES0'')]
   \<and> endpoints_exist linked_network
   \<and> map fst (buses (snd (add_green_ammonia literal_lib linked_network () enabled_config [])))
        = [''ES0'', ''ES1'', ''ES0-NH3'']
   \<and> map (\<lambda>row. (fst row, link_bus0 (snd row), link_bus1 (snd row)))
        (links (snd (add_green_ammonia literal_lib linked_network () enabled_config [])))
        = [(''L01'', ''ES0'', ''ES1''), (''ES0-NH3-electrolyser'', ''ES0'', ''ES0-NH3''),
           (''ES0-NH3-CCGT'', ''ES0-NH3'', ''ES0'')]
   \<and> map (\<lambda>row. (fst row, store_bus (snd row)))
        (stores (snd (add_green_ammonia literal_lib linked_network () enabled_config [])))
        = [(''S0'', ''ES0''), (''ES0-NH3-store'', ''ES0-NH3'')]"
  using injected_chain_consistent [where config = enabled_config
      and ga = "[(''enable'', PBool True)]" and location = "[]" and lib = literal_lib
      and network = linked_network and base_bus = "''ES0''" and snapshots = "()"
      and kwargs = "[]"
      and network' = "snd (add_green_ammonia literal_lib linked_network () enabled_config [])"]
  unfolding add_green_ammonia_def
  by (simp add: fixture_defs run_defs endpoints_exist_def
      cong: try_pure_weak_cong try_st_weak_cong)

section \<open>Repeated calls\<close>

text \<open>
  Claim C1 says that a second call with the same configuration changes nothing. Here it
  does not hold. In the first call the filter \<^verbatim>\<open>NH3\<close> matches no bus of ES, so the
  resolver falls back to all of them and picks \<^verbatim>\<open>ES0\<close>; the new bus
  \<^verbatim>\<open>ES0-NH3\<close> inherits the country of its base. In the second call the filter
  matches the new bus only, the resolver picks it as the base, no label check hits, and
  a second chain is built on \<^verbatim>\<open>ES0-NH3\<close>.
\<close>

theorem repeated_call_with_substring_filter:
  "fst (add_green_ammonia literal_lib single_bus_network () substring_config []) = Inr ()
   \<and> fst (add_green_ammonia literal_lib once () substring_config []) = Inr ()
   \<and> map fst (buses once) = [''ES0'', ''ES0-NH3'']
   \<and> map fst (buses twice) = [''ES0'', ''ES0-NH3'', ''ES0-NH3-NH3'']
   \<and> map fst (links once) = [''ES0-NH3-electrolyser'', ''ES0-NH3-CCGT'']
   \<and> map fst (links twice) = [''ES0-NH3-electrolyser'', ''ES0-NH3-CCGT'',
         ''ES0-NH3-NH3-electrolyser'', ''ES0-NH3-NH3-CCGT'']
   \<and> map fst (stores once) = [''ES0-NH3-store'']
   \<and> map fst (stores twice) = [''ES0-NH3-store'', ''ES0-NH3-NH3-store'']
   \<and> twice \<noteq> once"
  unfolding twice_def once_def add_green_ammonia_def
  by (simp add: fixture_defs run_defs cong: try_pure_weak_cong try_st_weak_cong)

subsection \<open>The first minimum survives a copy of the winner\<close>

lemma argmin_unique:
  assumes i: "i < length ds"
    and char: "ds ! i = NaN \<and> (\<forall>j<i. ds ! j \<noteq> NaN)
       \<or> (\<forall>j<length ds. ds ! j \<noteq> NaN) \<and> (\<forall>j<length ds. f_ge (ds ! j) (ds ! i))
         \<and> (\<forall>j<i. \<not> f_ge (ds ! i) (ds ! j))"
  shows "argmin ds = Inr i"
proof -
  from i have "ds \<noteq> []" by auto
  from argmin_first_minimum [OF this]
  obtain k where k: "k < length ds" "argmin ds = Inr k"
    and chark: "ds ! k = NaN \<and> (\<forall>j<k. ds ! j \<noteq> NaN)
       \<or> (\<forall>j<length ds. ds ! j \<noteq> NaN) \<and> (\<forall>j<length ds. f_ge (ds ! j) (ds ! k))
         \<and> (\<forall>j<k. \<not> f_ge (ds ! k) (ds ! j))"
    by blast
  have "\<not> k < i"
    using char chark i k(1) by (metis less_trans)
  moreover have "\<not> i < k"
    using char chark i k(1) by (metis less_trans)
  ultimately have "k = i"
    by simp
  with k(2) show ?thesis
    by simp
qed

lemma argmin_append_copy:
  assumes "argmin ds = Inr i"
  shows "argmin (ds @ [ds ! i]) = Inr i"
proof -
  from assms have i: "i < length ds"
    by (rule argmin_in_range)
  then have "ds \<noteq> []" by auto
  from argmin_first_minimum [OF this] assms
  have char: "ds ! i = NaN \<and> (\<forall>j<i. ds ! j \<noteq> NaN)
       \<or> (\<forall>j<length ds. ds ! j \<noteq> NaN) \<and> (\<forall>j<length ds. f_ge (ds ! j) (ds ! i))
         \<and> (\<forall>j<i. \<not> f_ge (ds ! i) (ds ! j))"
    by auto
  let ?es = "ds @ [ds ! i]"
  have nth: "?es ! j = ds ! j" if "j < length ds" for j
    using that by (simp add: nth_append)
  have last: "?es ! length ds = ds ! i"
    by simp
  show ?thesis
  proof (rule argmin_unique)
    show "i < length ?es"
      using i by simp
    from char show "?es ! i = NaN \<and> (\<forall>j<i. ?es ! j \<noteq> NaN)
       \<or> (\<forall>j<length ?es. ?es ! j \<noteq> NaN) \<and> (\<forall>j<length ?es. f_ge (?es ! j) (?es ! i))
         \<and> (\<forall>j<i. \<not> f_ge (?es ! i) (?es ! j))"
    proof
      assume "ds ! i = NaN \<and> (\<forall>j<i. ds ! j \<noteq> NaN)"
      then have "?es ! i = NaN \<and> (\<forall>j<i. ?es ! j \<noteq> NaN)"
        using i by (simp add: nth_append)
      then show ?thesis ..
    next
      assume m: "(\<forall>j<length ds. ds ! j \<noteq> NaN) \<and> (\<forall>j<length ds. f_ge (ds ! j) (ds ! i))
         \<and> (\<forall>j<i. \<not> f_ge (ds ! i) (ds ! j))"
      then have "ds ! i \<noteq> NaN"
        using i by blast
      then have self: "f_ge (ds ! i) (ds ! i)"
        by (rule f_ge_refl)
      have "\<forall>j<length ?es. ?es ! j \<noteq> NaN"
        using m i \<open>ds ! i \<noteq> NaN\<close> by (auto simp: nth_append less_Suc_eq)
      moreover have "\<forall>j<length ?es. f_ge (?es ! j) (?es ! i)"
        using m i self by (auto simp: nth_append less_Suc_eq)
      moreover have "\<forall>j<i. \<not> f_ge (?es ! i) (?es ! j)"
        using m i by (auto simp: nth_append)
      ultimately show ?thesis
        by blast
    qed
  qed
qed

lemma distinct_labels_same_row:
  assumes "distinct (map fst rows)" and "(l, r) \<in> set rows" and "(l, r') \<in> set rows"
  shows "r = r'"
  using assms by (meson eq_key_imp_eq_value)

lemma nearest_append_copy:
  assumes res: "nearest lib cands latitude longitude = Inr l"
    and dist: "distinct (map fst cands)"
    and row: "(l, row) \<in> set cands"
    and same: "bus_x new = bus_x row" "bus_y new = bus_y row"
  shows "nearest lib (cands @ [(l', new)]) latitude longitude = Inr l"
proof (cases "latitude = PNone \<or> longitude = PNone")
  case True
  with res show ?thesis
    by (cases cands) (auto simp: nearest_def first_label_def)
next
  case False
  with res obtain lat lon i where ll: "np_float lib latitude = Inr lat"
    "np_float lib longitude = Inr lon"
    and i: "argmin (distances cands lat lon) = Inr i" "l = fst (cands ! i)"
    by (auto simp: nearest_def split: sum.splits)
  from argmin_in_range [OF i(1)] have len: "i < length cands"
    by (simp add: distances_def)
  then have "(l, snd (cands ! i)) \<in> set cands"
    using i(2) by (metis nth_mem prod.collapse)
  with dist row have "snd (cands ! i) = row"
    using distinct_labels_same_row [of cands l "snd (cands ! i)" row] by simp
  then have d: "distance lat lon new = distances cands lat lon ! i"
    using same len by (simp add: distances_def distance_def)
  have "argmin (distances cands lat lon @ [distances cands lat lon ! i]) = Inr i"
    using i(1) by (rule argmin_append_copy)
  then have "argmin (distances (cands @ [(l', new)]) lat lon) = Inr i"
    using d by (simp add: distances_def)
  with False ll len i(2) show ?thesis
    by (simp add: nearest_def nth_append)
qed

lemma closest_bus_append_copy:
  assumes res: "closest_bus lib n country_code latitude longitude bus_substring = Inr l"
    and nofilter: "\<not> truthy bus_substring"
    and dist: "distinct (map fst (buses n))"
    and base: "map_of (buses n) l = Some base"
    and n': "buses n' = buses n @ [(l', new)]"
    and same: "bus_x new = bus_x base" "bus_y new = bus_y base" "bus_country new = bus_country base"
  shows "closest_bus lib n' country_code latitude longitude bus_substring = Inr l"
proof -
  let ?c = "country_candidates n country_code"
  from res nofilter have ne: "?c \<noteq> []" and near: "nearest lib ?c latitude longitude = Inr l"
    by (auto simp: closest_bus_def narrow_def Let_def split: if_splits)
  from nearest_member [OF near] obtain row where row: "(l, row) \<in> set ?c"
    by auto
  then have "(l, row) \<in> set (buses n)" and cc: "PStr (bus_country row) = country_code"
    by (auto simp: country_candidates_def)
  with dist base have "row = base"
    by (simp add: map_of_eq_Some_iff)
  with cc same(3) have c': "country_candidates n' country_code = ?c @ [(l', new)]"
    by (simp add: country_candidates_def n')
  have "distinct (map fst ?c)"
    using dist unfolding country_candidates_def by (rule distinct_map_filter)
  from nearest_append_copy [OF near this row, of new l'] same \<open>row = base\<close>
  have "nearest lib (?c @ [(l', new)]) latitude longitude = Inr l"
    by simp
  with nofilter show ?thesis
    by (simp add: closest_bus_def c' narrow_def)
qed

lemma closest_bus_same_buses:
  "buses n' = buses n \<Longrightarrow>
   closest_bus lib n' country_code latitude longitude bus_substring =
   closest_bus lib n country_code latitude longitude bus_substring"
  by (simp add: closest_bus_def country_candidates_def)

subsection \<open>Each step absorbs its own effect\<close>

lemma ensure_carrier_grows:
  "set (carriers n) \<subseteq> set (carriers (snd (ensure_carrier n name)))"
  by (cases name) (auto simp: ensure_carrier_def)

lemma ensure_carriers_grow:
  "set (carriers n) \<subseteq> set (carriers (snd (ensure_carriers n names)))"
proof (induction names arbitrary: n)
  case Nil
  then show ?case by simp
next
  case (Cons name names)
  show ?case
  proof (cases "fst (ensure_carrier n name)")
    case (Inl e)
    then show ?thesis
      using ensure_carrier_grows [of n name] by (simp add: try_st_unfold)
  next
    case (Inr u)
    then show ?thesis
      using ensure_carrier_grows [of n name] Cons.IH [of "snd (ensure_carrier n name)"]
      by (auto simp: try_st_unfold)
  qed
qed

lemma ensure_carrier_outcome:
  "(\<forall>m. ensure_carrier m name = (Inl TypeError, m))
   \<or> (\<forall>m. name \<in> set (carriers m) \<longrightarrow> ensure_carrier m name = (Inr (), m))
       \<and> fst (ensure_carrier n name) = Inr ()
       \<and> name \<in> set (carriers (snd (ensure_carrier n name)))"
  by (cases name) (auto simp: ensure_carrier_def)

lemma ensure_carriers_absorb:
  "set (carriers (snd (ensure_carriers n names))) \<subseteq> set (carriers m) \<Longrightarrow>
   ensure_carriers m names = (fst (ensure_carriers n names), m)"
proof (induction names arbitrary: n)
  case Nil
  then show ?case by simp
next
  case (Cons name names)
  from ensure_carrier_outcome [of name n] show ?case
  proof (elim disjE conjE)
    assume "\<forall>m. ensure_carrier m name = (Inl TypeError, m)"
    then show ?thesis
      by simp
  next
    assume h: "\<forall>m. name \<in> set (carriers m) \<longrightarrow> ensure_carrier m name = (Inr (), m)"
      "fst (ensure_carrier n name) = Inr ()"
      "name \<in> set (carriers (snd (ensure_carrier n name)))"
    let ?n2 = "snd (ensure_carrier n name)"
    have step: "ensure_carriers n (name # names) = ensure_carriers ?n2 names"
      using h(2) by (simp add: try_st_unfold)
    with Cons.prems have sub: "set (carriers (snd (ensure_carriers ?n2 names))) \<subseteq> set (carriers m)"
      by simp
    with ensure_carriers_grow [of ?n2 names] h(3) have "name \<in> set (carriers m)"
      by auto
    with h(1) have "ensure_carrier m name = (Inr (), m)"
      by blast
    with Cons.IH [OF sub] step show ?thesis
      by simp
  qed
qed

lemma add_bus_outcome:
  assumes "map_of (buses n) base_bus = Some base"
  shows "fst (add_bus n base_bus carrier) = Inr (base_bus @ ''-NH3'')"
    and "links (snd (add_bus n base_bus carrier)) = links n"
    and "stores (snd (add_bus n base_bus carrier)) = stores n"
    and "carriers (snd (add_bus n base_bus carrier)) = carriers n"
    and "base_bus @ ''-NH3'' \<in> set (map fst (buses (snd (add_bus n base_bus carrier))))"
    and "map_of (buses (snd (add_bus n base_bus carrier))) base_bus = Some base"
    and "buses (snd (add_bus n base_bus carrier)) = buses n
         \<or> buses (snd (add_bus n base_bus carrier)) = buses n @
              [(base_bus @ ''-NH3'',
                \<lparr>bus_x = bus_x base, bus_y = bus_y base, bus_country = bus_country base,
                 bus_carrier = carrier, bus_sub_network = bus_sub_network base\<rparr>)]"
  using assms by (auto simp: add_bus_def Let_def)

lemma add_bus_present:
  assumes "map_of (buses m) base_bus = Some base"
    and "base_bus @ ''-NH3'' \<in> set (map fst (buses m))"
  shows "add_bus m base_bus carrier = (Inr (base_bus @ ''-NH3''), m)"
  using assms by (simp add: add_bus_def Let_def)

lemma add_electrolyser_outcome:
  "buses (snd (add_electrolyser n base_bus nh3_bus cfg c)) = buses n"
  "stores (snd (add_electrolyser n base_bus nh3_bus cfg c)) = stores n"
  "carriers (snd (add_electrolyser n base_bus nh3_bus cfg c)) = carriers n"
  "set (map fst (links n)) \<subseteq> set (map fst (links (snd (add_electrolyser n base_bus nh3_bus cfg c))))"
  "fst (add_electrolyser n base_bus nh3_bus cfg c) = Inl e \<Longrightarrow>
     snd (add_electrolyser n base_bus nh3_bus cfg c) = n"
  "fst (add_electrolyser n base_bus nh3_bus cfg c) = Inr u \<Longrightarrow>
     base_bus @ ''-NH3-electrolyser''
       \<in> set (map fst (links (snd (add_electrolyser n base_bus nh3_bus cfg c))))"
  by (auto simp: add_electrolyser_def Let_def split: pyval.splits if_splits)

lemma add_electrolyser_present:
  "base_bus @ ''-NH3-electrolyser'' \<in> set (map fst (links m)) \<Longrightarrow>
   add_electrolyser m base_bus nh3_bus cfg c = (Inr (), m)"
  by (simp add: add_electrolyser_def Let_def)

lemma add_storage_outcome:
  "buses (snd (add_storage n nh3_bus cfg c)) = buses n"
  "links (snd (add_storage n nh3_bus cfg c)) = links n"
  "carriers (snd (add_storage n nh3_bus cfg c)) = carriers n"
  "fst (add_storage n nh3_bus cfg c) = Inl e \<Longrightarrow> snd (add_storage n nh3_bus cfg c) = n"
  "fst (add_storage n nh3_bus cfg c) = Inr u \<Longrightarrow>
     nh3_bus @ ''-store'' \<in> set (map fst (stores (snd (add_storage n nh3_bus cfg c))))"
  by (auto simp: add_storage_def Let_def split: pyval.splits if_splits)

lemma add_storage_present:
  "nh3_bus @ ''-store'' \<in> set (map fst (stores m)) \<Longrightarrow>
   add_storage m nh3_bus cfg c = (Inr (), m)"
  by (simp add: add_storage_def Let_def)

lemma add_ccgt_outcome:
  "buses (snd (add_ccgt n base_bus nh3_bus cfg c)) = buses n"
  "stores (snd (add_ccgt n base_bus nh3_bus cfg c)) = stores n"
  "carriers (snd (add_ccgt n base_bus nh3_bus cfg c)) = carriers n"
  "set (map fst (links n)) \<subseteq> set (map fst (links (snd (add_ccgt n base_bus nh3_bus cfg c))))"
  by (auto simp: add_ccgt_def Let_def split: pyval.splits if_splits)

lemma add_ccgt_absorbs:
  "add_ccgt (snd (add_ccgt n base_bus nh3_bus cfg c)) base_bus nh3_bus cfg c =
   add_ccgt n base_bus nh3_bus cfg c"
  by (cases cfg) (auto simp: add_ccgt_def Let_def)

lemma pair_fst_snd: "fst p = a \<Longrightarrow> p = (a, snd p)"
  by (simp add: prod_eq_iff)

lemma inject_chain_outcome:
  assumes base: "map_of (buses n) base_bus = Some base"
  shows "inject_chain (snd (inject_chain n (PDict ga) base_bus cs ce cc)) (PDict ga) base_bus cs ce cc
           = inject_chain n (PDict ga) base_bus cs ce cc
         \<and> (buses (snd (inject_chain n (PDict ga) base_bus cs ce cc)) = buses n
            \<or> buses (snd (inject_chain n (PDict ga) base_bus cs ce cc)) = buses n @
                [(base_bus @ ''-NH3'',
                  \<lparr>bus_x = bus_x base, bus_y = bus_y base, bus_country = bus_country base,
                   bus_carrier = cs, bus_sub_network = bus_sub_network base\<rparr>)])"
proof -
  let ?names = "[cs, ce, cc]"
  let ?nh3 = "base_bus @ ''-NH3''"
  let ?copy = "\<lparr>bus_x = bus_x base, bus_y = bus_y base, bus_country = bus_country base,
                   bus_carrier = cs, bus_sub_network = bus_sub_network base\<rparr>"
  define n1 where "n1 = snd (ensure_carriers n ?names)"
  have again1: "\<And>m. set (carriers n1) \<subseteq> set (carriers m) \<Longrightarrow>
      ensure_carriers m ?names = (fst (ensure_carriers n ?names), m)"
    unfolding n1_def by (rule ensure_carriers_absorb)
  have f1: "buses n1 = buses n"
    unfolding n1_def using ensure_carriers_frame [of n ?names] by simp
  show ?thesis
  proof (cases "fst (ensure_carriers n ?names)")
    case (Inl e)
    then have s1: "ensure_carriers n ?names = (Inl e, n1)"
      unfolding n1_def by (rule pair_fst_snd)
    then have run: "inject_chain n (PDict ga) base_bus cs ce cc = (Inl e, n1)"
      unfolding inject_chain_def by simp
    have "ensure_carriers n1 ?names = (Inl e, n1)"
      using again1 [of n1] Inl by simp
    then have "inject_chain n1 (PDict ga) base_bus cs ce cc = (Inl e, n1)"
      unfolding inject_chain_def by simp
    then show ?thesis
      unfolding run using f1 by simp
  next
    case (Inr u1)
    then have s1: "ensure_carriers n ?names = (Inr (), n1)"
      unfolding n1_def by (simp add: pair_fst_snd)
    from f1 base have base1: "map_of (buses n1) base_bus = Some base"
      by simp
    define n2 where "n2 = snd (add_bus n1 base_bus cs)"
    have s2: "add_bus n1 base_bus cs = (Inr ?nh3, n2)"
      unfolding n2_def using add_bus_outcome(1) [OF base1] by (rule pair_fst_snd)
    have f2: "carriers n2 = carriers n1" "?nh3 \<in> set (map fst (buses n2))"
      "map_of (buses n2) base_bus = Some base"
      unfolding n2_def using add_bus_outcome(4,5,6) [OF base1] by simp_all
    have b2: "buses n2 = buses n \<or> buses n2 = buses n @ [(?nh3, ?copy)]"
      unfolding n2_def using add_bus_outcome(7) [OF base1, of cs] f1 by simp
    have again2: "\<And>m. buses m = buses n2 \<Longrightarrow> add_bus m base_bus cs = (Inr ?nh3, m)"
      using f2(2,3) by (intro add_bus_present) simp_all
    let ?ecfg = "cfg_get ga ''electrolyser'' (PDict [])"
    let ?scfg = "cfg_get ga ''storage'' (PDict [])"
    let ?gcfg = "cfg_get ga ''ccgt'' (PDict [])"
    define n3 where "n3 = snd (add_electrolyser n2 base_bus ?nh3 ?ecfg ce)"
    have f3: "buses n3 = buses n2" "carriers n3 = carriers n2"
      unfolding n3_def by (simp_all add: add_electrolyser_outcome)
    show ?thesis
    proof (cases "fst (add_electrolyser n2 base_bus ?nh3 ?ecfg ce)")
      case (Inl e)
      have s3: "add_electrolyser n2 base_bus ?nh3 ?ecfg ce = (Inl e, n2)"
        using Inl add_electrolyser_outcome(5) [OF Inl] by (simp add: prod_eq_iff)
      have run: "inject_chain n (PDict ga) base_bus cs ce cc = (Inl e, n2)"
        unfolding inject_chain_def using s1 s2 s3 by (simp del: ensure_carriers.simps)
      have "ensure_carriers n2 ?names = (Inr (), n2)"
        using again1 [of n2] f2(1) Inr by simp
      moreover have "add_bus n2 base_bus cs = (Inr ?nh3, n2)"
        by (rule again2) simp
      ultimately have "inject_chain n2 (PDict ga) base_bus cs ce cc = (Inl e, n2)"
        unfolding inject_chain_def using s3 by (simp del: ensure_carriers.simps)
      then show ?thesis
        unfolding run using b2 by simp
    next
      case (Inr u3)
      then have s3: "add_electrolyser n2 base_bus ?nh3 ?ecfg ce = (Inr (), n3)"
        unfolding n3_def by (simp add: pair_fst_snd)
      have l3: "base_bus @ ''-NH3-electrolyser'' \<in> set (map fst (links n3))"
        unfolding n3_def using add_electrolyser_outcome(6) [OF Inr] .
      define n4 where "n4 = snd (add_storage n3 ?nh3 ?scfg cs)"
      have f4: "buses n4 = buses n3" "carriers n4 = carriers n3" "links n4 = links n3"
        unfolding n4_def by (simp_all add: add_storage_outcome)
      show ?thesis
      proof (cases "fst (add_storage n3 ?nh3 ?scfg cs)")
        case (Inl e)
        have s4: "add_storage n3 ?nh3 ?scfg cs = (Inl e, n3)"
          using Inl add_storage_outcome(4) [OF Inl] by (simp add: prod_eq_iff)
        have run: "inject_chain n (PDict ga) base_bus cs ce cc = (Inl e, n3)"
          unfolding inject_chain_def using s1 s2 s3 s4 by (simp del: ensure_carriers.simps)
        have "ensure_carriers n3 ?names = (Inr (), n3)"
          using again1 [of n3] f2(1) f3(2) \<open>fst (ensure_carriers n ?names) = Inr u1\<close> by simp
        moreover have "add_bus n3 base_bus cs = (Inr ?nh3, n3)"
          by (rule again2) (simp add: f3)
        moreover have "add_electrolyser n3 base_bus ?nh3 ?ecfg ce = (Inr (), n3)"
          using l3 by (rule add_electrolyser_present)
        ultimately have "inject_chain n3 (PDict ga) base_bus cs ce cc = (Inl e, n3)"
          unfolding inject_chain_def using s4 by (simp del: ensure_carriers.simps)
        then show ?thesis
          unfolding run using b2 f3(1) by simp
      next
        case (Inr u4)
        then have s4: "add_storage n3 ?nh3 ?scfg cs = (Inr (), n4)"
          unfolding n4_def by (simp add: pair_fst_snd)
        have l4: "?nh3 @ ''-store'' \<in> set (map fst (stores n4))"
          unfolding n4_def using add_storage_outcome(5) [OF Inr] .
        let ?r = "add_ccgt n4 base_bus ?nh3 ?gcfg cc"
        have run: "inject_chain n (PDict ga) base_bus cs ce cc = ?r"
          unfolding inject_chain_def using s1 s2 s3 s4 by (simp del: ensure_carriers.simps)
        have f5: "buses (snd ?r) = buses n4" "carriers (snd ?r) = carriers n4"
          "stores (snd ?r) = stores n4"
          "set (map fst (links n4)) \<subseteq> set (map fst (links (snd ?r)))"
          by (simp_all only: add_ccgt_outcome)
        have "ensure_carriers (snd ?r) ?names = (Inr (), snd ?r)"
          using again1 [of "snd ?r"] f2(1) f3(2) f4(2) f5(2)
            \<open>fst (ensure_carriers n ?names) = Inr u1\<close> by simp
        moreover have "add_bus (snd ?r) base_bus cs = (Inr ?nh3, snd ?r)"
          by (rule again2) (simp add: f3 f4 f5)
        moreover have "add_electrolyser (snd ?r) base_bus ?nh3 ?ecfg ce = (Inr (), snd ?r)"
          using l3 f4(3) f5(4) by (intro add_electrolyser_present) auto
        moreover have "add_storage (snd ?r) ?nh3 ?scfg cs = (Inr (), snd ?r)"
          using l4 f5(3) by (intro add_storage_present) simp
        moreover have "add_ccgt (snd ?r) base_bus ?nh3 ?gcfg cc = ?r"
          by (rule add_ccgt_absorbs)
        ultimately have "inject_chain (snd ?r) (PDict ga) base_bus cs ce cc = ?r"
          unfolding inject_chain_def by (simp del: ensure_carriers.simps)
        then show ?thesis
          unfolding run using b2 f3(1) f4(1) f5(1) by simp
      qed
    qed
  qed
qed

subsection \<open>The whole hook\<close>

lemma hook_unchanged_or_chain:
  "snd (add_green_ammonia lib network snapshots config kwargs) = network
   \<or> (\<exists>ga location base_bus cdict.
         get_cfg config = Inr (PDict ga)
       \<and> cfg_get ga ''location'' (PDict []) = PDict location
       \<and> closest_bus lib network (cfg_get ga ''country_code'' (PStr ''ES''))
            (cfg_get location ''latitude'' PNone) (cfg_get location ''longitude'' PNone)
            (cfg_get location ''bus_substring'' PNone) = Inr base_bus
       \<and> (\<forall>m. closest_bus lib m (cfg_get ga ''country_code'' (PStr ''ES''))
            (cfg_get location ''latitude'' PNone) (cfg_get location ''longitude'' PNone)
            (cfg_get location ''bus_substring'' PNone) = Inr base_bus \<longrightarrow>
            add_green_ammonia lib m snapshots config kwargs =
            inject_chain m (PDict ga) base_bus (cfg_get cdict ''ammonia'' (PStr ''NH3''))
              (cfg_get cdict ''to_store'' (PStr ''NH3-electrolyser''))
              (cfg_get cdict ''to_power'' (PStr ''NH3-power''))))"
proof (cases "get_cfg config")
  case (Inl e)
  then show ?thesis
    by (simp add: add_green_ammonia_def)
next
  case (Inr v)
  show ?thesis
  proof (cases "\<exists>ga. v = PDict ga")
    case False
    then have "py_get v ''enable'' (PBool False) = Inl AttributeError"
      by (intro py_get_not_dict) simp
    with Inr show ?thesis
      by (simp add: add_green_ammonia_def)
  next
    case True
    then obtain ga where ga: "v = PDict ga" by blast
    show ?thesis
    proof (cases "truthy (cfg_get ga ''enable'' (PBool False))")
      case False
      with Inr ga show ?thesis
        by (simp add: add_green_ammonia_def)
    next
      case on: True
      show ?thesis
      proof (cases "\<exists>location. cfg_get ga ''location'' (PDict []) = PDict location")
        case False
        then have "py_get (cfg_get ga ''location'' (PDict [])) ''latitude'' PNone = Inl AttributeError"
          by (intro py_get_not_dict) simp
        with Inr ga on show ?thesis
          by (simp add: add_green_ammonia_def)
      next
        case True
        then obtain location where loc: "cfg_get ga ''location'' (PDict []) = PDict location"
          by blast
        let ?cb = "\<lambda>m. closest_bus lib m (cfg_get ga ''country_code'' (PStr ''ES''))
            (cfg_get location ''latitude'' PNone) (cfg_get location ''longitude'' PNone)
            (cfg_get location ''bus_substring'' PNone)"
        show ?thesis
        proof (cases "?cb network")
          case (Inl e)
          with Inr ga on loc show ?thesis
            by (simp add: add_green_ammonia_def)
        next
          case cb: (Inr base_bus)
          show ?thesis
          proof (cases "\<exists>cdict. cfg_get ga ''carriers'' (PDict []) = PDict cdict")
            case False
            then have "py_get (cfg_get ga ''carriers'' (PDict [])) ''ammonia'' (PStr ''NH3'')
                = Inl AttributeError"
              by (intro py_get_not_dict) simp
            with Inr ga on loc cb show ?thesis
              by (simp add: add_green_ammonia_def)
          next
            case True
            then obtain cdict where cd: "cfg_get ga ''carriers'' (PDict []) = PDict cdict"
              by blast
            have "\<forall>m. ?cb m = Inr base_bus \<longrightarrow>
                add_green_ammonia lib m snapshots config kwargs =
                inject_chain m (PDict ga) base_bus (cfg_get cdict ''ammonia'' (PStr ''NH3''))
                  (cfg_get cdict ''to_store'' (PStr ''NH3-electrolyser''))
                  (cfg_get cdict ''to_power'' (PStr ''NH3-power''))"
              using Inr ga on loc cd
              by (simp add: add_green_ammonia_def inject_chain_def del: ensure_carriers.simps)
            with Inr ga loc cb show ?thesis
              by blast
          qed
        qed
      qed
    qed
  qed
qed

text \<open>
  When no substring filter is configured (the key is absent, \<^verbatim>\<open>None\<close> or empty) and
  the carrier names are strings, a second call with the same configuration on a network
  with unique bus labels returns what the first call returned and leaves the network as
  the first call left it, also when the first call raised after it had inserted part of
  the chain.
\<close>

theorem repeated_call_without_filter:
  assumes labels: "distinct (map fst (buses network))"
    and nofilter: "\<forall>ga location. get_cfg config = Inr (PDict ga) \<longrightarrow>
        cfg_get ga ''location'' (PDict []) = PDict location \<longrightarrow>
        \<not> truthy (cfg_get location ''bus_substring'' PNone)"
    and strings: "\<forall>ga cdict. get_cfg config = Inr (PDict ga) \<longrightarrow>
        cfg_get ga ''carriers'' (PDict []) = PDict cdict \<longrightarrow>
        (\<exists>a b c. cfg_get cdict ''ammonia'' (PStr ''NH3'') = PStr a
           \<and> cfg_get cdict ''to_store'' (PStr ''NH3-electrolyser'') = PStr b
           \<and> cfg_get cdict ''to_power'' (PStr ''NH3-power'') = PStr c)"
  shows "add_green_ammonia lib (snd (add_green_ammonia lib network snapshots config kwargs))
           snapshots config kwargs
         = add_green_ammonia lib network snapshots config kwargs"
  using hook_unchanged_or_chain [of lib network snapshots config kwargs]
proof (elim disjE exE conjE)
  assume "snd (add_green_ammonia lib network snapshots config kwargs) = network"
  then show ?thesis by simp
next
  fix ga location base_bus cdict
  let ?cb = "\<lambda>m. closest_bus lib m (cfg_get ga ''country_code'' (PStr ''ES''))
            (cfg_get location ''latitude'' PNone) (cfg_get location ''longitude'' PNone)
            (cfg_get location ''bus_substring'' PNone)"
  let ?chain = "\<lambda>m. inject_chain m (PDict ga) base_bus (cfg_get cdict ''ammonia'' (PStr ''NH3''))
              (cfg_get cdict ''to_store'' (PStr ''NH3-electrolyser''))
              (cfg_get cdict ''to_power'' (PStr ''NH3-power''))"
  assume cfg: "get_cfg config = Inr (PDict ga)"
    and loc: "cfg_get ga ''location'' (PDict []) = PDict location"
    and cb: "?cb network = Inr base_bus"
    and chain: "\<forall>m. ?cb m = Inr base_bus \<longrightarrow>
        add_green_ammonia lib m snapshots config kwargs = ?chain m"
  from cfg loc nofilter have nf: "\<not> truthy (cfg_get location ''bus_substring'' PNone)"
    by blast
  from closest_bus_member [OF cb] obtain base where base: "map_of (buses network) base_bus = Some base"
    by (metis map_of_eq_None_iff not_Some_eq set_map)
  from chain cb have run: "add_green_ammonia lib network snapshots config kwargs = ?chain network"
    by blast
  from inject_chain_outcome [OF base]
  have again: "?chain (snd (?chain network)) = ?chain network"
    and bs: "buses (snd (?chain network)) = buses network
         \<or> buses (snd (?chain network)) = buses network @
                [(base_bus @ ''-NH3'',
                  \<lparr>bus_x = bus_x base, bus_y = bus_y base, bus_country = bus_country base,
                   bus_carrier = cfg_get cdict ''ammonia'' (PStr ''NH3''),
                   bus_sub_network = bus_sub_network base\<rparr>)]"
    by blast+
  from bs have "?cb (snd (?chain network)) = Inr base_bus"
  proof
    assume "buses (snd (?chain network)) = buses network"
    from closest_bus_same_buses [OF this] cb show ?thesis
      by simp
  next
    assume "buses (snd (?chain network)) = buses network @
                [(base_bus @ ''-NH3'',
                  \<lparr>bus_x = bus_x base, bus_y = bus_y base, bus_country = bus_country base,
                   bus_carrier = cfg_get cdict ''ammonia'' (PStr ''NH3''),
                   bus_sub_network = bus_sub_network base\<rparr>)]"
    then show ?thesis
      by (rule closest_bus_append_copy [OF cb nf labels base]) simp_all
  qed
  with chain have "add_green_ammonia lib (snd (?chain network)) snapshots config kwargs
      = ?chain (snd (?chain network))"
    by blast
  with again run show ?thesis
    by simp
qed

theorem repeated_call_without_filter_witness:
  "distinct (map fst (buses single_bus_network))
   \<and> get_cfg enabled_config = Inr (PDict [(''enable'', PBool True)])
   \<and> cfg_get [(''enable'', PBool True)] ''location'' (PDict []) = PDict []
   \<and> \<not> truthy (cfg_get [] ''bus_substring'' PNone)
   \<and> cfg_get [(''enable'', PBool True)] ''carriers'' (PDict []) = PDict []
   \<and> cfg_get [] ''ammonia'' (PStr ''NH3'') = PStr ''NH3''
   \<and> cfg_get [] ''to_store'' (PStr ''NH3-electrolyser'') = PStr ''NH3-electrolyser''
   \<and> cfg_get [] ''to_power'' (PStr ''NH3-power'') = PStr ''NH3-power''
   \<and> add_green_ammonia literal_lib
         (snd (add_green_ammonia literal_lib single_bus_network () enabled_config []))
         () enabled_config []
       = add_green_ammonia literal_lib single_bus_network () enabled_config []"
proof -
  have d: "distinct (map fst (buses single_bus_network))"
    by (simp add: fixture_defs)
  have c: "get_cfg enabled_config = Inr (PDict [(''enable'', PBool True)])"
    by (simp add: fixture_defs get_cfg_def cfg_get_def)
  have nf: "\<forall>ga location. get_cfg enabled_config = Inr (PDict ga) \<longrightarrow>
        cfg_get ga ''location'' (PDict []) = PDict location \<longrightarrow>
        \<not> truthy (cfg_get location ''bus_substring'' PNone)"
    unfolding c by (auto simp: cfg_get_def)
  have st: "\<forall>ga cdict. get_cfg enabled_config = Inr (PDict ga) \<longrightarrow>
        cfg_get ga ''carriers'' (PDict []) = PDict cdict \<longrightarrow>
        (\<exists>a b c. cfg_get cdict ''ammonia'' (PStr ''NH3'') = PStr a
           \<and> cfg_get cdict ''to_store'' (PStr ''NH3-electrolyser'') = PStr b
           \<and> cfg_get cdict ''to_power'' (PStr ''NH3-power'') = PStr c)"
    unfolding c by (auto simp: cfg_get_def)
  from repeated_call_without_filter [OF d nf st, of literal_lib "()" "[]"] d c
  show ?thesis
    by (simp add: cfg_get_def)
qed

end
